theory Spec2Isabelle
  imports Main "HOL-Library.Word" "HOL-Library.Char_ord"
begin

unbundle bit_operations_syntax

section \<open>Errors\<close>

text \<open>
  A Go \<^verbatim>\<open>error\<close> is modelled by the place that creates it, with the arguments of its
  format string.  The first group are the errors created in this package with
  \<^verbatim>\<open>fmt.Errorf\<close>; \<^verbatim>\<open>%w\<close> keeps the wrapped cause.  \<open>ErrLength\<close> and
  \<open>InvalidByteError\<close> are the two errors of \<^verbatim>\<open>encoding/hex\<close>.  An \<open>ext_error\<close> is an error
  value made by a collaborator outside the package (net/http, encoding/json, io, os,
  mime/multipart, the JWT library), known by its text only; \<open>External\<close> is such a
  value on its way through this package, which passes it on unchanged.
\<close>

type_synonym byte = "8 word"

datatype ext_error = Foreign string

datatype error =
    KeyFormatExpected
  | KeyFormatEmptyId
  | KeyFormatEmptySecret
  | KeySecretInvalid error
  | GeneratingToken error
  | ErrAPI int string
  | UploadFailed int string
  | NotFound string string
  | NoneReturned string
  | ErrLength
  | InvalidByteError char
  | External ext_error

text \<open>
  The constructors stand for these format strings of the source:
  \<^item> \<open>KeyFormatExpected\<close>: \<^verbatim>\<open>invalid API key format: expected 'id:secret'\<close>;
  \<^item> \<open>KeyFormatEmptyId\<close>: \<^verbatim>\<open>invalid API key format: id cannot be empty\<close>;
  \<^item> \<open>KeyFormatEmptySecret\<close>: \<^verbatim>\<open>invalid API key format: secret cannot be empty\<close>;
  \<^item> \<open>KeySecretInvalid err\<close>: \<^verbatim>\<open>invalid API key secret: %w\<close>;
  \<^item> \<open>GeneratingToken err\<close>: \<^verbatim>\<open>generating token: %w\<close>;
  \<^item> \<open>ErrAPI status msg\<close>: \<^verbatim>\<open>API error (%d): %s\<close>;
  \<^item> \<open>UploadFailed status body\<close>: \<^verbatim>\<open>upload failed (%d): %s\<close>;
  \<^item> \<open>NotFound kind key\<close>: \<^verbatim>\<open>post not found: %s\<close> and its siblings for the other kinds;
  \<^item> \<open>NoneReturned kind\<close>: \<^verbatim>\<open>no post returned\<close> and its siblings.
\<close>

section \<open>auth.go: parsing the API key\<close>

text \<open>
  \<^verbatim>\<open>strings.Split(s, sep)\<close> for a one-byte separator: the pieces between the separators, so
  one piece more than there are separators (the empty string gives one empty piece).
\<close>

fun Split :: "string \<Rightarrow> char \<Rightarrow> string list" where
  "Split [] sep = [[]]"
| "Split (c # cs) sep =
     (if c = sep then [] # Split cs sep
      else (case Split cs sep of p # ps \<Rightarrow> (c # p) # ps | [] \<Rightarrow> [[c]]))"

text \<open>
  \<^verbatim>\<open>encoding/hex\<close>: the table \<^verbatim>\<open>reverseHexTable\<close> maps a hexadecimal digit (either case)
  to its value and every other byte to \<^verbatim>\<open>0xff\<close>; \<^verbatim>\<open>Decode\<close> walks the source two bytes at
  a time, reports the first byte that is no digit, and reports an odd length only after
  having checked the last, unpaired byte.  \<^verbatim>\<open>DecodeString\<close> returns the bytes decoded
  before the error together with the error.
\<close>

definition reverseHexTable :: "char \<Rightarrow> byte" where
  "reverseHexTable c =
     (let n = (of_char c :: nat) in
      if 48 \<le> n \<and> n \<le> 57 then of_nat (n - 48)
      else if 97 \<le> n \<and> n \<le> 102 then of_nat (n - 87)
      else if 65 \<le> n \<and> n \<le> 70 then of_nat (n - 55)
      else 0xff)"

fun Decode :: "byte list \<Rightarrow> string \<Rightarrow> byte list \<times> error option" where
  "Decode dst (p # q # src) =
     (let a = reverseHexTable p; b = reverseHexTable q in
      if a > 0x0f then (dst, Some (InvalidByteError p))
      else if b > 0x0f then (dst, Some (InvalidByteError q))
      else Decode (dst @ [push_bit 4 a OR b]) src)"
| "Decode dst [p] =
     (if reverseHexTable p > 0x0f then (dst, Some (InvalidByteError p))
      else (dst, Some ErrLength))"
| "Decode dst [] = (dst, None)"

definition DecodeString :: "string \<Rightarrow> byte list \<times> error option" where
  "DecodeString s = Decode [] s"

text \<open>
  \<^verbatim>\<open>ParseAPIKey\<close>: the Go function returns \<^verbatim>\<open>(id, secret, err)\<close> with empty results
  beside an error, which is the sum type here.
\<close>

definition ParseAPIKey :: "string \<Rightarrow> error + (string \<times> byte list)" where
  "ParseAPIKey apiKey =
     (let parts = Split apiKey CHR '':'' in
      if length parts \<noteq> 2 then Inl KeyFormatExpected
      else let kid = parts ! 0 in
        if kid = [] then Inl KeyFormatEmptyId
        else if parts ! 1 = [] then Inl KeyFormatEmptySecret
        else (case DecodeString (parts ! 1) of
                (secret, Some err) \<Rightarrow> Inl (KeySecretInvalid err)
              | (secret, None) \<Rightarrow> Inr (kid, secret)))"

text \<open>
  The vocabulary of the credential format.  The segments of a key are what stands before
  and after its first separator.  A hexadecimal digit is a character in one of the ranges
  \<^verbatim>\<open>0-9\<close>, \<^verbatim>\<open>a-f\<close>, \<^verbatim>\<open>A-F\<close>; a secret is valid hexadecimal when it is the
  hexadecimal text of a byte sequence, that is an even number of hexadecimal digits.
  \<open>hex_of_bytes\<close> is that text: two lower-case digits for each byte, the high half first.
\<close>

definition key_id :: "string \<Rightarrow> string" where
  "key_id k = takeWhile (\<lambda>c. c \<noteq> CHR '':'') k"

definition key_secret :: "string \<Rightarrow> string" where
  "key_secret k = drop 1 (dropWhile (\<lambda>c. c \<noteq> CHR '':'') k)"

definition is_hex_digit :: "char \<Rightarrow> bool" where
  "is_hex_digit c \<longleftrightarrow>
     (CHR ''0'' \<le> c \<and> c \<le> CHR ''9'') \<or> (CHR ''a'' \<le> c \<and> c \<le> CHR ''f'') \<or>
     (CHR ''A'' \<le> c \<and> c \<le> CHR ''F'')"

definition valid_hex :: "string \<Rightarrow> bool" where
  "valid_hex s \<longleftrightarrow> even (length s) \<and> list_all is_hex_digit s"

definition to_lower :: "char \<Rightarrow> char" where
  "to_lower c =
     (case map_of (zip ''ABCDEFGHIJKLMNOPQRSTUVWXYZ'' ''abcdefghijklmnopqrstuvwxyz'') c of
        Some d \<Rightarrow> d
      | None \<Rightarrow> c)"

definition hextable :: string where
  "hextable = ''0123456789abcdef''"

definition hex_of_bytes :: "byte list \<Rightarrow> string" where
  "hex_of_bytes src =
     concat (map (\<lambda>v. [hextable ! unat (drop_bit 4 v), hextable ! unat (v AND 0x0f)]) src)"

section \<open>auth.go: minting a token\<close>

text \<open>
  The standard library's \<^verbatim>\<open>time.Time\<close>, as \<^verbatim>\<open>time/time.go\<close> declares it.  \<open>wall\<close>
  holds, from the top bit down, the flag \<^verbatim>\<open>hasMonotonic\<close>, 33 bits of seconds and 30 bits
  of nanoseconds.  With the flag set (a reading of \<^verbatim>\<open>time.Now\<close>), the 33 bits count the
  seconds since the year 1885 and \<open>ext\<close> is the monotonic clock reading; with the flag
  clear, the 33 bits are zero and \<open>ext\<close> counts the seconds since the year 1, as a signed
  64-bit number.  \<open>loc\<close> is the location pointer, nil for UTC.  An \<^verbatim>\<open>int64\<close> is a 64-bit
  word read by \<open>sint\<close>: \<open>+\<close> and \<open>-\<close> wrap around as they do in Go, and Go's \<^verbatim>\<open>/\<close> and
  \<^verbatim>\<open>%\<close> truncate towards zero.
\<close>

type_synonym int64 = "64 word"
type_synonym int32 = "32 word"
type_synonym uint64 = "64 word"

type_synonym Duration = int64

record Time =
  wall :: uint64
  ext :: int64
  loc :: "string option"

definition int64_quo :: "int64 \<Rightarrow> int64 \<Rightarrow> int64" where
  "int64_quo a b = word_of_int (sgn (sint a) * sgn (sint b) * (\<bar>sint a\<bar> div \<bar>sint b\<bar>))"

definition int64_rem :: "int64 \<Rightarrow> int64 \<Rightarrow> int64" where
  "int64_rem a b = word_of_int (sgn (sint a) * (\<bar>sint a\<bar> mod \<bar>sint b\<bar>))"

definition Nanosecond :: Duration where
  "Nanosecond = 1"

definition Microsecond :: Duration where
  "Microsecond = 1000 * Nanosecond"

definition Millisecond :: Duration where
  "Millisecond = 1000 * Microsecond"

definition Second :: Duration where
  "Second = 1000 * Millisecond"

definition Minute :: Duration where
  "Minute = 60 * Second"

definition hasMonotonic :: uint64 where
  "hasMonotonic = push_bit 63 1"

definition nsecMask :: uint64 where
  "nsecMask = push_bit 30 1 - 1"

definition nsecShift :: nat where
  "nsecShift = 30"

definition secondsPerDay :: int64 where
  "secondsPerDay = 86400"

definition unixToInternal :: int64 where
  "unixToInternal = (1969 * 365 + 1969 div 4 - 1969 div 100 + 1969 div 400) * secondsPerDay"

definition internalToUnix :: int64 where
  "internalToUnix = - unixToInternal"

definition wallToInternal :: int64 where
  "wallToInternal = (1884 * 365 + 1884 div 4 - 1884 div 100 + 1884 div 400) * secondsPerDay"

text \<open>
  The methods of \<^verbatim>\<open>Time\<close> that minting a token reaches.  \<^verbatim>\<open>nsec\<close> reads the nanosecond
  field and \<^verbatim>\<open>sec\<close> the seconds since the year 1; \<^verbatim>\<open>stripMono\<close> drops the monotonic
  reading; \<^verbatim>\<open>addSec\<close> adds seconds, and where the sum leaves the 64-bit range it stops at
  the last (or first) second the type can hold; \<^verbatim>\<open>Add\<close> splits the duration into seconds
  and nanoseconds, carries between them, and moves the monotonic reading along;
  \<^verbatim>\<open>Unix\<close> is the seconds since 1970.
\<close>

definition nsec :: "Time \<Rightarrow> int32" where
  "nsec t = ucast (wall t AND nsecMask)"

definition sec :: "Time \<Rightarrow> int64" where
  "sec t =
     (if wall t AND hasMonotonic \<noteq> 0
      then wallToInternal + drop_bit (nsecShift + 1) (push_bit 1 (wall t))
      else ext t)"

definition unixSec :: "Time \<Rightarrow> int64" where
  "unixSec t = sec t + internalToUnix"

definition stripMono :: "Time \<Rightarrow> Time" where
  "stripMono t =
     (if wall t AND hasMonotonic \<noteq> 0
      then t\<lparr>ext := sec t, wall := wall t AND nsecMask\<rparr>
      else t)"

definition addSec :: "Time \<Rightarrow> int64 \<Rightarrow> Time" where
  "addSec t d =
     (let dsec = drop_bit (nsecShift + 1) (push_bit 1 (wall t)) + d in
      if wall t AND hasMonotonic \<noteq> 0 \<and> 0 \<le> sint dsec \<and> sint dsec \<le> 2 ^ 33 - 1
      then t\<lparr>wall := wall t AND nsecMask OR push_bit nsecShift dsec OR hasMonotonic\<rparr>
      else
        let t = stripMono t;
            sum = ext t + d
        in if (sint sum > sint (ext t)) = (sint d > 0) then t\<lparr>ext := sum\<rparr>
           else if sint d > 0 then t\<lparr>ext := push_bit 63 1 - 1\<rparr>
           else t\<lparr>ext := - (push_bit 63 1 - 1)\<rparr>)"

definition Add :: "Time \<Rightarrow> Duration \<Rightarrow> Time" where
  "Add t d =
     (let dsec = int64_quo d 1000000000;
          ns = nsec t + ucast (int64_rem d 1000000000);
          (dsec, ns) =
            (if sint ns \<ge> 1000000000 then (dsec + 1, ns - 1000000000)
             else if sint ns < 0 then (dsec - 1, ns + 1000000000)
             else (dsec, ns));
          t = t\<lparr>wall := wall t AND NOT nsecMask OR scast ns\<rparr>;
          t = addSec t dsec
      in if wall t AND hasMonotonic \<noteq> 0
         then let te = ext t + d in
              if (sint d < 0 \<and> sint te > sint (ext t)) \<or> (sint d > 0 \<and> sint te < sint (ext t))
              then stripMono t
              else t\<lparr>ext := te\<rparr>
         else t)"

definition Unix :: "Time \<Rightarrow> int64" where
  "Unix t = unixSec t"

text \<open>
  The constructor \<^verbatim>\<open>time.Unix(sec, nsec)\<close>: it brings the nanoseconds into the range from
  0 to 999999999, carrying into the seconds, and gives a wall-clock time in the local
  location.
\<close>

definition Local :: "string option" where
  "Local = Some ''Local''"

definition unixTime :: "int64 \<Rightarrow> int32 \<Rightarrow> Time" where
  "unixTime s ns = \<lparr>wall = scast ns, ext = s + unixToInternal, loc = Local\<rparr>"

definition time_Unix :: "int64 \<Rightarrow> int64 \<Rightarrow> Time" where
  "time_Unix s ns =
     (let (s, ns) =
        (if sint ns < 0 \<or> sint ns \<ge> 1000000000
         then let n = int64_quo ns 1000000000;
                  s = s + n;
                  ns = ns - n * 1000000000
              in if sint ns < 0 then (s - 1, ns + 1000000000) else (s, ns)
         else (s, ns))
      in unixTime s (ucast ns))"

text \<open>
  \<open>wall_seconds\<close> names the 33 bits of seconds in \<open>wall\<close>, which \<^verbatim>\<open>sec\<close> and
  \<^verbatim>\<open>addSec\<close> read.  The fields of a \<^verbatim>\<open>Time\<close> are not exported, and every value the
  package \<^verbatim>\<open>time\<close> hands out has its nanosecond field below one second; \<open>valid_Time\<close>
  says so.  \<open>fits_5_minutes\<close> says
  of a time that it lies at least 300 seconds before the last second a \<^verbatim>\<open>Time\<close> can hold,
  and outside the 300 seconds that end where the Unix count of 64 bits begins (there the
  Unix second of the time itself wraps around and that of the time 300 seconds later does
  not).
\<close>

definition wall_seconds :: "uint64 \<Rightarrow> int64" where
  "wall_seconds w = drop_bit 31 (push_bit 1 w)"

definition valid_Time :: "Time \<Rightarrow> bool" where
  "valid_Time t \<longleftrightarrow> wall t AND nsecMask < 1000000000"

definition fits_5_minutes :: "Time \<Rightarrow> bool" where
  "fits_5_minutes t \<longleftrightarrow>
     sint (sec t) \<le> 2 ^ 63 - 1 - 300 \<and>
     (sint (sec t) < - (2 ^ 63) + 62135596800 - 300 \<or> - (2 ^ 63) + 62135596800 \<le> sint (sec t))"

text \<open>
  The token of the JWT library before it is signed: the signing method, the header map
  and the claims map (\<^verbatim>\<open>jwt.MapClaims\<close>).  \<^verbatim>\<open>jwt.NewWithClaims\<close> fills the header with
  \<^verbatim>\<open>typ\<close> and \<^verbatim>\<open>alg\<close>.  The claims \<^verbatim>\<open>iat\<close> and \<^verbatim>\<open>exp\<close> are \<^verbatim>\<open>int64\<close> values, kept
  here as the numbers they stand for.  Signing itself (\<^verbatim>\<open>SignedString\<close>) belongs to the
  library and is a parameter of the model.  For the method \<^verbatim>\<open>HS256\<close> it writes the header
  and the claims as JSON with sorted keys, encodes them in base64url and appends the
  HMAC-SHA256 of the two under the key; none of these steps draws on a clock or a random
  source, so the parameter is a function of the token and the key.
\<close>

datatype jvalue = JString string | JInt int

record Token =
  Method :: string
  tok_Header :: "string \<rightharpoonup> jvalue"
  Claims :: "string \<rightharpoonup> jvalue"

definition SigningMethodHS256 :: string where
  "SigningMethodHS256 = ''HS256''"

definition NewWithClaims :: "string \<Rightarrow> (string \<rightharpoonup> jvalue) \<Rightarrow> Token" where
  "NewWithClaims method claims =
     \<lparr>Method = method,
      tok_Header = [''typ'' \<mapsto> JString ''JWT'', ''alg'' \<mapsto> JString method],
      Claims = claims\<rparr>"

type_synonym signer = "Token \<Rightarrow> byte list \<Rightarrow> ext_error + string"

definition external :: "ext_error + 'a \<Rightarrow> error + 'a" where
  "external r = (case r of Inl e \<Rightarrow> Inl (External e) | Inr x \<Rightarrow> Inr x)"

definition GenerateTokenWithTime :: "signer \<Rightarrow> string \<Rightarrow> Time \<Rightarrow> error + string" where
  "GenerateTokenWithTime SignedString apiKey now =
     (case ParseAPIKey apiKey of
        Inl err \<Rightarrow> Inl err
      | Inr (kid, secret) \<Rightarrow>
          let claims = [''iat'' \<mapsto> JInt (sint (Unix now)),
                        ''exp'' \<mapsto> JInt (sint (Unix (Add now (5 * Minute)))),
                        ''aud'' \<mapsto> JString ''/admin/''];
              token = NewWithClaims SigningMethodHS256 claims;
              token = token\<lparr>tok_Header := (tok_Header token)(''kid'' \<mapsto> JString kid)\<rparr>;
              token = token\<lparr>tok_Header := (tok_Header token)(''typ'' \<mapsto> JString ''JWT'')\<rparr>
          in external (SignedString token secret))"


section \<open>types.go: the wire records\<close>

text \<open>
  A Go \<^verbatim>\<open>int\<close> is a 64-bit word read as a signed number; a \<^verbatim>\<open>*int\<close> is an option.
  The domain records (post, page, tag, author, newsletter, webhook, image) are flat data
  that the client passes through without looking inside, so they are type parameters of
  the collection wrappers.
\<close>

type_synonym go_int = "64 word"

record Pagination =
  Page :: go_int
  Limit :: go_int
  Pages :: go_int
  Total :: go_int
  Next :: "go_int option"
  Prev :: "go_int option"

record Meta =
  meta_Pagination :: Pagination

record APIError =
  Message :: string
  Context :: string
  Type :: string

record ErrorResponse =
  Errors :: "APIError list"

record 'post PostsResponse =
  Posts :: "'post list"
  posts_Meta :: "Meta option"

record 'page PagesResponse =
  Pages_of :: "'page list"
  pages_Meta :: "Meta option"

record 'tag TagsResponse =
  Tags :: "'tag list"
  tags_Meta :: "Meta option"

record 'author UsersResponse =
  Users :: "'author list"
  users_Meta :: "Meta option"

record 'newsletter NewslettersResponse =
  Newsletters :: "'newsletter list"

record 'webhook WebhooksResponse =
  Webhooks :: "'webhook list"

record 'image ImagesResponse =
  Images :: "'image list"

text \<open>
  \<^verbatim>\<open>encoding/json\<close> on \<^verbatim>\<open>Pagination\<close>, at the level of JSON values.  None of the six
  fields carries \<^verbatim>\<open>omitempty\<close>, so marshaling writes all six keys in the order of the
  declaration, an \<^verbatim>\<open>int\<close> as a number and a \<^verbatim>\<open>*int\<close> as \<^verbatim>\<open>null\<close> when it is nil.
  Unmarshaling walks the members of an object: a member whose key names a field sets it
  (\<^verbatim>\<open>null\<close> leaves an \<^verbatim>\<open>int\<close> as it is and makes a \<^verbatim>\<open>*int\<close> nil), other members are
  skipped, and a value of the wrong kind or a number outside the 64-bit range is an error.

  A key names the field whose tag it equals and, when there is none, the first field whose
  tag it equals under \<^verbatim>\<open>foldName\<close>.  \<^verbatim>\<open>foldName\<close> turns the ASCII letters into upper
  case and replaces every other character by the smallest one of its case-folding class.
  Two characters outside ASCII fold to an ASCII letter: the long s (U+017F, the bytes
  \<^verbatim>\<open>C5 BF\<close>) to \<^verbatim>\<open>S\<close> and the Kelvin sign (U+212A, the bytes \<^verbatim>\<open>E2 84 AA\<close>) to \<^verbatim>\<open>K\<close>.
  Every other byte outside ASCII is left as it is here: its folding stays outside ASCII,
  so it never makes a key equal to one of these tags.
\<close>

datatype json =
    JNull
  | JBool bool
  | JNumber int
  | JStr string
  | JArray "json list"
  | JObject "(string \<times> json) list"

definition marshal_int :: "go_int \<Rightarrow> json" where
  "marshal_int n = JNumber (sint n)"

definition marshal_int_ptr :: "go_int option \<Rightarrow> json" where
  "marshal_int_ptr p = (case p of None \<Rightarrow> JNull | Some n \<Rightarrow> marshal_int n)"

definition Marshal_Pagination :: "Pagination \<Rightarrow> json" where
  "Marshal_Pagination p =
     JObject [(''page'', marshal_int (Page p)),
              (''limit'', marshal_int (Limit p)),
              (''pages'', marshal_int (Pages p)),
              (''total'', marshal_int (Total p)),
              (''next'', marshal_int_ptr (Next p)),
              (''prev'', marshal_int_ptr (Prev p))]"

definition in_int_range :: "int \<Rightarrow> bool" where
  "in_int_range n \<longleftrightarrow> - (2 ^ 63) \<le> n \<and> n < 2 ^ 63"

fun unmarshal_int :: "json \<Rightarrow> go_int \<Rightarrow> ext_error + go_int" where
  "unmarshal_int JNull old = Inr old"
| "unmarshal_int (JNumber n) old =
     (if in_int_range n then Inr (word_of_int n)
      else Inl (Foreign ''json: cannot unmarshal number into Go value of type int''))"
| "unmarshal_int v old = Inl (Foreign ''json: cannot unmarshal into Go value of type int'')"

fun unmarshal_int_ptr :: "json \<Rightarrow> go_int option \<Rightarrow> ext_error + go_int option" where
  "unmarshal_int_ptr JNull old = Inr None"
| "unmarshal_int_ptr (JNumber n) old =
     (if in_int_range n then Inr (Some (word_of_int n))
      else Inl (Foreign ''json: cannot unmarshal number into Go value of type int''))"
| "unmarshal_int_ptr v old = Inl (Foreign ''json: cannot unmarshal into Go value of type int'')"

definition to_upper :: "char \<Rightarrow> char" where
  "to_upper c =
     (case map_of (zip ''abcdefghijklmnopqrstuvwxyz'' ''ABCDEFGHIJKLMNOPQRSTUVWXYZ'') c of
        Some d \<Rightarrow> d
      | None \<Rightarrow> c)"

fun foldName :: "string \<Rightarrow> string" where
  "foldName (c1 # c2 # c3 # cs) =
     (if c1 = CHR 0xE2 \<and> c2 = CHR 0x84 \<and> c3 = CHR 0xAA then CHR ''K'' # foldName cs
      else if c1 = CHR 0xC5 \<and> c2 = CHR 0xBF then CHR ''S'' # foldName (c3 # cs)
      else to_upper c1 # foldName (c2 # c3 # cs))"
| "foldName [c1, c2] =
     (if c1 = CHR 0xC5 \<and> c2 = CHR 0xBF then ''S'' else to_upper c1 # foldName [c2])"
| "foldName [c1] = [to_upper c1]"
| "foldName [] = []"

definition pagination_tags :: "string list" where
  "pagination_tags = [''page'', ''limit'', ''pages'', ''total'', ''next'', ''prev'']"

definition field_of_key :: "string list \<Rightarrow> string \<Rightarrow> string option" where
  "field_of_key tags key =
     (if key \<in> set tags then Some key
      else find (\<lambda>tag. foldName tag = foldName key) tags)"

definition unmarshal_member :: "string \<times> json \<Rightarrow> Pagination \<Rightarrow> ext_error + Pagination" where
  "unmarshal_member kv p =
     (let (k, v) = kv in
      case field_of_key pagination_tags k of
        None \<Rightarrow> Inr p
      | Some f \<Rightarrow>
          if f = ''page'' then map_sum id (\<lambda>x. p\<lparr>Page := x\<rparr>) (unmarshal_int v (Page p))
          else if f = ''limit'' then map_sum id (\<lambda>x. p\<lparr>Limit := x\<rparr>) (unmarshal_int v (Limit p))
          else if f = ''pages'' then map_sum id (\<lambda>x. p\<lparr>Pages := x\<rparr>) (unmarshal_int v (Pages p))
          else if f = ''total'' then map_sum id (\<lambda>x. p\<lparr>Total := x\<rparr>) (unmarshal_int v (Total p))
          else if f = ''next'' then map_sum id (\<lambda>x. p\<lparr>Next := x\<rparr>) (unmarshal_int_ptr v (Next p))
          else if f = ''prev'' then map_sum id (\<lambda>x. p\<lparr>Prev := x\<rparr>) (unmarshal_int_ptr v (Prev p))
          else Inr p)"

fun unmarshal_members :: "(string \<times> json) list \<Rightarrow> Pagination \<Rightarrow> ext_error + Pagination" where
  "unmarshal_members [] p = Inr p"
| "unmarshal_members (kv # kvs) p =
     (case unmarshal_member kv p of
        Inl err \<Rightarrow> Inl err
      | Inr p' \<Rightarrow> unmarshal_members kvs p')"

fun Unmarshal_Pagination :: "json \<Rightarrow> Pagination \<Rightarrow> ext_error + Pagination" where
  "Unmarshal_Pagination (JObject kvs) p = unmarshal_members kvs p"
| "Unmarshal_Pagination JNull p = Inr p"
| "Unmarshal_Pagination v p =
     Inl (Foreign ''json: cannot unmarshal into Go value of type libecto.Pagination'')"

definition zero_Pagination :: Pagination where
  "zero_Pagination = \<lparr>Page = 0, Limit = 0, Pages = 0, Total = 0, Next = None, Prev = None\<rparr>"


section \<open>client.go: the transport\<close>

text \<open>
  What lies outside the package is gathered in two records.  The environment \<open>env\<close>
  holds the behaviour of the collaborators: the signer of the JWT library, the validation
  done by \<^verbatim>\<open>http.NewRequest\<close>, the HTTP client together with the network and the remote
  site (\<open>Do\<close>: the answer to a request, given the requests sent before it), the JSON
  decoder at the error envelope, the file system (\<open>Open\<close>: opening a path fails, or
  gives a file whose reading fails or yields its content), and the multipart writer.
  The state \<open>world\<close> is what a call changes: the clock readings consumed, the requests
  sent, the paths opened, the multipart boundaries drawn; \<open>calls\<close> is a trace, kept for the
  proofs only, of the method and path of every invocation of \<open>do\<close>.
\<close>

datatype payload =
    JSONBody string
  | FormBody string string string string

record Request =
  req_Method :: string
  req_URL :: string
  req_Header :: "string \<rightharpoonup> string"
  req_Body :: "payload option"

record Response =
  StatusCode :: int
  Body :: "ext_error + string"

record env =
  SignedString :: signer
  NewRequest_error :: "string \<Rightarrow> string \<Rightarrow> ext_error option"
  Do :: "Request list \<Rightarrow> Request \<Rightarrow> ext_error + Response"
  UnmarshalErrorResponse :: "string \<Rightarrow> ErrorResponse \<Rightarrow> ext_error option \<times> ErrorResponse"
  Open :: "string \<Rightarrow> ext_error + (ext_error + string)"
  CreateFormFile_error :: "string \<Rightarrow> string \<Rightarrow> ext_error option"
  RandomBoundary :: "nat \<Rightarrow> string"

record world =
  clock :: "nat \<Rightarrow> Time"
  clock_reads :: nat
  sent :: "Request list"
  opened :: "string list"
  boundaries :: nat
  calls :: "(string \<times> string) list"

text \<open>
  \<^verbatim>\<open>json.Marshal\<close> and \<^verbatim>\<open>json.Unmarshal\<close> at the types of one call: the request body and
  the result.  Unmarshaling works on the value behind the result pointer and may change
  it even when it reports an error.
\<close>

record ('b, 'r) codec =
  Marshal :: "'b \<Rightarrow> ext_error + string"
  Unmarshal :: "string \<Rightarrow> 'r \<Rightarrow> ext_error option \<times> 'r"

record Client =
  baseURL :: string
  apiKey :: string

definition TrimSuffix :: "string \<Rightarrow> string \<Rightarrow> string" where
  "TrimSuffix s suf =
     (if length suf \<le> length s \<and> drop (length s - length suf) s = suf
      then take (length s - length suf) s else s)"

definition NewClient :: "string \<Rightarrow> string \<Rightarrow> Client" where
  "NewClient url key = \<lparr>baseURL = TrimSuffix url ''/'' @ ''/ghost/api/admin'', apiKey = key\<rparr>"

definition time_Now :: "world \<Rightarrow> Time \<times> world" where
  "time_Now w = (clock w (clock_reads w), w\<lparr>clock_reads := Suc (clock_reads w)\<rparr>)"

definition GenerateToken :: "env \<Rightarrow> string \<Rightarrow> world \<Rightarrow> (error + string) \<times> world" where
  "GenerateToken E key w =
     (case ParseAPIKey key of
        Inl err \<Rightarrow> (Inl err, w)
      | Inr (kid, secret) \<Rightarrow>
          (case time_Now w of
             (now, w') \<Rightarrow>
               let claims = [''iat'' \<mapsto> JInt (sint (Unix now)),
                             ''exp'' \<mapsto> JInt (sint (Unix (Add now (5 * Minute)))),
                             ''aud'' \<mapsto> JString ''/admin/''];
                   token = NewWithClaims SigningMethodHS256 claims;
                   token = token\<lparr>tok_Header := (tok_Header token)(''kid'' \<mapsto> JString kid)\<rparr>;
                   token = token\<lparr>tok_Header := (tok_Header token)(''typ'' \<mapsto> JString ''JWT'')\<rparr>
               in (external (SignedString E token secret), w')))"

definition NewRequest :: "env \<Rightarrow> string \<Rightarrow> string \<Rightarrow> payload option \<Rightarrow> error + Request" where
  "NewRequest E method url body =
     (case NewRequest_error E method url of
        Some err \<Rightarrow> Inl (External err)
      | None \<Rightarrow> Inr \<lparr>req_Method = method, req_URL = url, req_Header = Map.empty, req_Body = body\<rparr>)"

definition Header_Set :: "Request \<Rightarrow> string \<Rightarrow> string \<Rightarrow> Request" where
  "Header_Set req k v = req\<lparr>req_Header := (req_Header req)(k \<mapsto> v)\<rparr>"

definition httpClient_Do :: "env \<Rightarrow> Request \<Rightarrow> world \<Rightarrow> (error + Response) \<times> world" where
  "httpClient_Do E req w = (external (Do E (sent w) req), w\<lparr>sent := sent w @ [req]\<rparr>)"

definition request ::
  "env \<Rightarrow> ('b \<Rightarrow> ext_error + string) \<Rightarrow> Client \<Rightarrow> string \<Rightarrow> string \<Rightarrow> 'b option \<Rightarrow> world
     \<Rightarrow> (error + Response) \<times> world" where
  "request E marshal c method path body w =
     (case GenerateToken E (apiKey c) w of
        (Inl err, w) \<Rightarrow> (Inl (GeneratingToken err), w)
      | (Inr token, w) \<Rightarrow>
          (case (case body of
                   None \<Rightarrow> Inr None
                 | Some b \<Rightarrow>
                     (case marshal b of
                        Inl err \<Rightarrow> Inl (External err)
                      | Inr data \<Rightarrow> Inr (Some (JSONBody data)))) of
             Inl err \<Rightarrow> (Inl err, w)
           | Inr bodyReader \<Rightarrow>
               let url = baseURL c @ path in
               (case NewRequest E method url bodyReader of
                  Inl err \<Rightarrow> (Inl err, w)
                | Inr req \<Rightarrow>
                    let req = Header_Set req ''Authorization'' (''Ghost '' @ token);
                        req = (if body \<noteq> None
                               then Header_Set req ''Content-Type'' ''application/json'' else req)
                    in httpClient_Do E req w)))"

text \<open>
  \<open>do\<close>: the result pointer is an option, \<open>None\<close> for \<^verbatim>\<open>nil\<close>; the function returns the
  error and the value behind the pointer after the call.
\<close>

definition do ::
  "env \<Rightarrow> ('b, 'r) codec \<Rightarrow> Client \<Rightarrow> string \<Rightarrow> string \<Rightarrow> 'b option \<Rightarrow> 'r option \<Rightarrow> world
     \<Rightarrow> (error option \<times> 'r option) \<times> world" where
  "do E J c method path body result w0 =
     (case request E (Marshal J) c method path body w0 of
        (r, w1) \<Rightarrow>
          let w = w1\<lparr>calls := calls w1 @ [(method, path)]\<rparr> in
          (case r of
             Inl err \<Rightarrow> ((Some err, result), w)
           | Inr resp \<Rightarrow>
               (case Body resp of
                  Inl err \<Rightarrow> ((Some (External err), result), w)
                | Inr respBody \<Rightarrow>
                    if StatusCode resp \<ge> 400 then
                      (case UnmarshalErrorResponse E respBody \<lparr>Errors = []\<rparr> of
                         (None, errResp) \<Rightarrow>
                           if length (Errors errResp) > 0 then
                             let msg = Message (Errors errResp ! 0);
                                 msg = (if Context (Errors errResp ! 0) \<noteq> []
                                        then msg @ '': '' @ Context (Errors errResp ! 0) else msg)
                             in ((Some (ErrAPI (StatusCode resp) msg), result), w)
                           else ((Some (ErrAPI (StatusCode resp) respBody), result), w)
                       | (Some _, errResp) \<Rightarrow>
                           ((Some (ErrAPI (StatusCode resp) respBody), result), w))
                    else
                      (case result of
                         Some r \<Rightarrow>
                           (case Unmarshal J respBody r of
                              (err, r') \<Rightarrow> ((map_option External err, Some r'), w))
                       | None \<Rightarrow> ((None, None), w)))))"

text \<open>
  A call \<^verbatim>\<open>c.do(method, path, body, &resp)\<close>: the caller reads \<^verbatim>\<open>resp\<close> afterwards.
\<close>

definition do_ref ::
  "env \<Rightarrow> ('b, 'r) codec \<Rightarrow> Client \<Rightarrow> string \<Rightarrow> string \<Rightarrow> 'b option \<Rightarrow> 'r \<Rightarrow> world
     \<Rightarrow> (error option \<times> 'r) \<times> world" where
  "do_ref E J c method path body resp w =
     (case do E J c method path body (Some resp) w of
        ((err, result), w') \<Rightarrow> ((err, case result of Some r \<Rightarrow> r | None \<Rightarrow> resp), w'))"

section \<open>client.go: the resource operations\<close>

text \<open>
  Every operation declares a fresh response value (\<^verbatim>\<open>var resp PostsResponse\<close>, all
  fields zero), hands its address to \<open>do\<close> and reads it afterwards.  In the lookups the
  second call receives the same variable as the first.  The request body of a write is the
  map with the one key of the resource's plural name.
\<close>

definition GetPost ::
  "env \<Rightarrow> ('b, 'post PostsResponse) codec \<Rightarrow> Client \<Rightarrow> string \<Rightarrow> world \<Rightarrow> (error + 'post) \<times> world" where
  "GetPost E J c idOrSlug w =
     (let resp = \<lparr>Posts = [], posts_Meta = None\<rparr> in
      case do_ref E J c ''GET'' (''/posts/'' @ idOrSlug @ ''/?formats=html'') None resp w of
        ((err, resp), w) \<Rightarrow>
          (case (case err of
                   Some _ \<Rightarrow>
                     do_ref E J c ''GET'' (''/posts/slug/'' @ idOrSlug @ ''/?formats=html'') None resp w
                 | None \<Rightarrow> ((None, resp), w)) of
             ((Some err, resp), w) \<Rightarrow> (Inl err, w)
           | ((None, resp), w) \<Rightarrow>
               if length (Posts resp) = 0 then (Inl (NotFound ''post'' idOrSlug), w)
               else (Inr (Posts resp ! 0), w)))"

definition CreatePost ::
  "env \<Rightarrow> ((string \<times> 'post list) list, 'post PostsResponse) codec \<Rightarrow> Client \<Rightarrow> 'post \<Rightarrow> world
     \<Rightarrow> (error + 'post) \<times> world" where
  "CreatePost E J c post w =
     (let body = [(''posts'', [post])]; resp = \<lparr>Posts = [], posts_Meta = None\<rparr> in
      case do_ref E J c ''POST'' ''/posts/?source=html&formats=html'' (Some body) resp w of
        ((Some err, resp), w) \<Rightarrow> (Inl err, w)
      | ((None, resp), w) \<Rightarrow>
          if length (Posts resp) = 0 then (Inl (NoneReturned ''post''), w)
          else (Inr (Posts resp ! 0), w))"

definition UpdatePost ::
  "env \<Rightarrow> ((string \<times> 'post list) list, 'post PostsResponse) codec \<Rightarrow> Client \<Rightarrow> string \<Rightarrow> 'post
     \<Rightarrow> world \<Rightarrow> (error + 'post) \<times> world" where
  "UpdatePost E J c ident post w =
     (let body = [(''posts'', [post])]; resp = \<lparr>Posts = [], posts_Meta = None\<rparr> in
      case do_ref E J c ''PUT'' (''/posts/'' @ ident @ ''/?source=html&formats=html'') (Some body) resp w of
        ((Some err, resp), w) \<Rightarrow> (Inl err, w)
      | ((None, resp), w) \<Rightarrow>
          if length (Posts resp) = 0 then (Inl (NoneReturned ''post''), w)
          else (Inr (Posts resp ! 0), w))"

definition DeletePost :: "env \<Rightarrow> (unit, unit) codec \<Rightarrow> Client \<Rightarrow> string \<Rightarrow> world \<Rightarrow> error option \<times> world" where
  "DeletePost E J c ident w =
     (case do E J c ''DELETE'' (''/posts/'' @ ident @ ''/'') None None w of
        ((err, result), w) \<Rightarrow> (err, w))"

definition GetPage ::
  "env \<Rightarrow> ('b, 'page PagesResponse) codec \<Rightarrow> Client \<Rightarrow> string \<Rightarrow> world \<Rightarrow> (error + 'page) \<times> world" where
  "GetPage E J c idOrSlug w =
     (let resp = \<lparr>Pages_of = [], pages_Meta = None\<rparr> in
      case do_ref E J c ''GET'' (''/pages/'' @ idOrSlug @ ''/?formats=html'') None resp w of
        ((err, resp), w) \<Rightarrow>
          (case (case err of
                   Some _ \<Rightarrow>
                     do_ref E J c ''GET'' (''/pages/slug/'' @ idOrSlug @ ''/?formats=html'') None resp w
                 | None \<Rightarrow> ((None, resp), w)) of
             ((Some err, resp), w) \<Rightarrow> (Inl err, w)
           | ((None, resp), w) \<Rightarrow>
               if length (Pages_of resp) = 0 then (Inl (NotFound ''page'' idOrSlug), w)
               else (Inr (Pages_of resp ! 0), w)))"

definition CreatePage ::
  "env \<Rightarrow> ((string \<times> 'page list) list, 'page PagesResponse) codec \<Rightarrow> Client \<Rightarrow> 'page \<Rightarrow> world
     \<Rightarrow> (error + 'page) \<times> world" where
  "CreatePage E J c page w =
     (let body = [(''pages'', [page])]; resp = \<lparr>Pages_of = [], pages_Meta = None\<rparr> in
      case do_ref E J c ''POST'' ''/pages/?formats=html'' (Some body) resp w of
        ((Some err, resp), w) \<Rightarrow> (Inl err, w)
      | ((None, resp), w) \<Rightarrow>
          if length (Pages_of resp) = 0 then (Inl (NoneReturned ''page''), w)
          else (Inr (Pages_of resp ! 0), w))"

definition UpdatePage ::
  "env \<Rightarrow> ((string \<times> 'page list) list, 'page PagesResponse) codec \<Rightarrow> Client \<Rightarrow> string \<Rightarrow> 'page
     \<Rightarrow> world \<Rightarrow> (error + 'page) \<times> world" where
  "UpdatePage E J c ident page w =
     (let body = [(''pages'', [page])]; resp = \<lparr>Pages_of = [], pages_Meta = None\<rparr> in
      case do_ref E J c ''PUT'' (''/pages/'' @ ident @ ''/?formats=html'') (Some body) resp w of
        ((Some err, resp), w) \<Rightarrow> (Inl err, w)
      | ((None, resp), w) \<Rightarrow>
          if length (Pages_of resp) = 0 then (Inl (NoneReturned ''page''), w)
          else (Inr (Pages_of resp ! 0), w))"

definition DeletePage :: "env \<Rightarrow> (unit, unit) codec \<Rightarrow> Client \<Rightarrow> string \<Rightarrow> world \<Rightarrow> error option \<times> world" where
  "DeletePage E J c ident w =
     (case do E J c ''DELETE'' (''/pages/'' @ ident @ ''/'') None None w of
        ((err, result), w) \<Rightarrow> (err, w))"

definition GetTag ::
  "env \<Rightarrow> ('b, 'tag TagsResponse) codec \<Rightarrow> Client \<Rightarrow> string \<Rightarrow> world \<Rightarrow> (error + 'tag) \<times> world" where
  "GetTag E J c idOrSlug w =
     (let resp = \<lparr>Tags = [], tags_Meta = None\<rparr> in
      case do_ref E J c ''GET'' (''/tags/'' @ idOrSlug @ ''/'') None resp w of
        ((err, resp), w) \<Rightarrow>
          (case (case err of
                   Some _ \<Rightarrow> do_ref E J c ''GET'' (''/tags/slug/'' @ idOrSlug @ ''/'') None resp w
                 | None \<Rightarrow> ((None, resp), w)) of
             ((Some err, resp), w) \<Rightarrow> (Inl err, w)
           | ((None, resp), w) \<Rightarrow>
               if length (Tags resp) = 0 then (Inl (NotFound ''tag'' idOrSlug), w)
               else (Inr (Tags resp ! 0), w)))"

definition CreateTag ::
  "env \<Rightarrow> ((string \<times> 'tag list) list, 'tag TagsResponse) codec \<Rightarrow> Client \<Rightarrow> 'tag \<Rightarrow> world
     \<Rightarrow> (error + 'tag) \<times> world" where
  "CreateTag E J c tag w =
     (let body = [(''tags'', [tag])]; resp = \<lparr>Tags = [], tags_Meta = None\<rparr> in
      case do_ref E J c ''POST'' ''/tags/'' (Some body) resp w of
        ((Some err, resp), w) \<Rightarrow> (Inl err, w)
      | ((None, resp), w) \<Rightarrow>
          if length (Tags resp) = 0 then (Inl (NoneReturned ''tag''), w)
          else (Inr (Tags resp ! 0), w))"

definition UpdateTag ::
  "env \<Rightarrow> ((string \<times> 'tag list) list, 'tag TagsResponse) codec \<Rightarrow> Client \<Rightarrow> string \<Rightarrow> 'tag
     \<Rightarrow> world \<Rightarrow> (error + 'tag) \<times> world" where
  "UpdateTag E J c ident tag w =
     (let body = [(''tags'', [tag])]; resp = \<lparr>Tags = [], tags_Meta = None\<rparr> in
      case do_ref E J c ''PUT'' (''/tags/'' @ ident @ ''/'') (Some body) resp w of
        ((Some err, resp), w) \<Rightarrow> (Inl err, w)
      | ((None, resp), w) \<Rightarrow>
          if length (Tags resp) = 0 then (Inl (NoneReturned ''tag''), w)
          else (Inr (Tags resp ! 0), w))"

definition DeleteTag :: "env \<Rightarrow> (unit, unit) codec \<Rightarrow> Client \<Rightarrow> string \<Rightarrow> world \<Rightarrow> error option \<times> world" where
  "DeleteTag E J c ident w =
     (case do E J c ''DELETE'' (''/tags/'' @ ident @ ''/'') None None w of
        ((err, result), w) \<Rightarrow> (err, w))"

definition GetUser ::
  "env \<Rightarrow> ('b, 'author UsersResponse) codec \<Rightarrow> Client \<Rightarrow> string \<Rightarrow> world \<Rightarrow> (error + 'author) \<times> world" where
  "GetUser E J c idOrSlug w =
     (let resp = \<lparr>Users = [], users_Meta = None\<rparr> in
      case do_ref E J c ''GET'' (''/users/'' @ idOrSlug @ ''/'') None resp w of
        ((err, resp), w) \<Rightarrow>
          (case (case err of
                   Some _ \<Rightarrow> do_ref E J c ''GET'' (''/users/slug/'' @ idOrSlug @ ''/'') None resp w
                 | None \<Rightarrow> ((None, resp), w)) of
             ((Some err, resp), w) \<Rightarrow> (Inl err, w)
           | ((None, resp), w) \<Rightarrow>
               if length (Users resp) = 0 then (Inl (NotFound ''user'' idOrSlug), w)
               else (Inr (Users resp ! 0), w)))"

definition GetNewsletter ::
  "env \<Rightarrow> ('b, 'newsletter NewslettersResponse) codec \<Rightarrow> Client \<Rightarrow> string \<Rightarrow> world
     \<Rightarrow> (error + 'newsletter) \<times> world" where
  "GetNewsletter E J c ident w =
     (let resp = \<lparr>Newsletters = []\<rparr> in
      case do_ref E J c ''GET'' (''/newsletters/'' @ ident @ ''/'') None resp w of
        ((Some err, resp), w) \<Rightarrow> (Inl err, w)
      | ((None, resp), w) \<Rightarrow>
          if length (Newsletters resp) = 0 then (Inl (NotFound ''newsletter'' ident), w)
          else (Inr (Newsletters resp ! 0), w))"

definition CreateWebhook ::
  "env \<Rightarrow> ((string \<times> 'webhook list) list, 'webhook WebhooksResponse) codec \<Rightarrow> Client \<Rightarrow> 'webhook
     \<Rightarrow> world \<Rightarrow> (error + 'webhook) \<times> world" where
  "CreateWebhook E J c webhook w =
     (let body = [(''webhooks'', [webhook])]; resp = \<lparr>Webhooks = []\<rparr> in
      case do_ref E J c ''POST'' ''/webhooks/'' (Some body) resp w of
        ((Some err, resp), w) \<Rightarrow> (Inl err, w)
      | ((None, resp), w) \<Rightarrow>
          if length (Webhooks resp) = 0 then (Inl (NoneReturned ''webhook''), w)
          else (Inr (Webhooks resp ! 0), w))"

definition DeleteWebhook :: "env \<Rightarrow> (unit, unit) codec \<Rightarrow> Client \<Rightarrow> string \<Rightarrow> world \<Rightarrow> error option \<times> world" where
  "DeleteWebhook E J c ident w =
     (case do E J c ''DELETE'' (''/webhooks/'' @ ident @ ''/'') None None w of
        ((err, result), w) \<Rightarrow> (err, w))"

section \<open>client.go: uploading an image\<close>

text \<open>
  \<^verbatim>\<open>filepath.Base\<close> on slash-separated paths: the last element, after trailing slashes are
  dropped; \<^verbatim>\<open>.\<close> for the empty path and \<^verbatim>\<open>/\<close> for a path of slashes only.
\<close>

definition Base :: "string \<Rightarrow> string" where
  "Base path =
     (if path = [] then ''.''
      else let p = rev (dropWhile (\<lambda>ch. ch = CHR ''/'') (rev path));
               b = rev (takeWhile (\<lambda>ch. ch \<noteq> CHR ''/'') (rev p))
           in if b = [] then ''/'' else b)"

definition os_Open :: "env \<Rightarrow> string \<Rightarrow> world \<Rightarrow> (ext_error + (ext_error + string)) \<times> world" where
  "os_Open E path w = (Open E path, w\<lparr>opened := opened w @ [path]\<rparr>)"

definition multipart_NewWriter :: "env \<Rightarrow> world \<Rightarrow> string \<times> world" where
  "multipart_NewWriter E w = (RandomBoundary E (boundaries w), w\<lparr>boundaries := Suc (boundaries w)\<rparr>)"

definition UploadImage ::
  "env \<Rightarrow> ('b, 'image ImagesResponse) codec \<Rightarrow> Client \<Rightarrow> string \<Rightarrow> world
     \<Rightarrow> (error + 'image ImagesResponse) \<times> world" where
  "UploadImage E J c filePath w =
     (case GenerateToken E (apiKey c) w of
        (Inl err, w) \<Rightarrow> (Inl (GeneratingToken err), w)
      | (Inr token, w) \<Rightarrow>
          (case os_Open E filePath w of
             (Inl err, w) \<Rightarrow> (Inl (External err), w)
           | (Inr file, w) \<Rightarrow>
               (case multipart_NewWriter E w of
                  (boundary, w) \<Rightarrow>
                    (case CreateFormFile_error E ''file'' (Base filePath) of
                       Some err \<Rightarrow> (Inl (External err), w)
                     | None \<Rightarrow>
                         (case file of
                            Inl err \<Rightarrow> (Inl (External err), w)
                          | Inr content \<Rightarrow>
                              let buf = FormBody boundary ''file'' (Base filePath) content in
                              (case NewRequest E ''POST'' (baseURL c @ ''/images/upload/'') (Some buf) of
                                 Inl err \<Rightarrow> (Inl err, w)
                               | Inr req \<Rightarrow>
                                   let req = Header_Set req ''Authorization'' (''Ghost '' @ token);
                                       req = Header_Set req ''Content-Type''
                                               (''multipart/form-data; boundary='' @ boundary)
                                   in (case httpClient_Do E req w of
                                         (Inl err, w) \<Rightarrow> (Inl err, w)
                                       | (Inr resp, w) \<Rightarrow>
                                           (case Body resp of
                                              Inl err \<Rightarrow> (Inl (External err), w)
                                            | Inr respBody \<Rightarrow>
                                                if StatusCode resp \<ge> 400
                                                then (Inl (UploadFailed (StatusCode resp) respBody), w)
                                                else (case Unmarshal J respBody \<lparr>Images = []\<rparr> of
                                                        (Some err, result) \<Rightarrow> (Inl (External err), w)
                                                      | (None, result) \<Rightarrow> (Inr result, w))))))))))"

section \<open>Test doubles\<close>

text \<open>
  Concrete collaborators, in the manner of the package's tests (an \<^verbatim>\<open>httptest\<close> server
  with a fixed answer, the key \<^verbatim>\<open>test123:7365637265746b6579313233\<close>).  A decoder is given by
  a table of the bodies it accepts and the values they decode to; every other body is a
  syntax error.  A server answers with a fixed status and body, or, as in
  \<^verbatim>\<open>TestClient_GetPost_FallbackToSlug\<close>, with 404 to the first request and with a record to
  the requests after it.

  \<open>fixedTime\<close> is the time of the tests, \<^verbatim>\<open>time.Date(2025, 1, 15, 12, 0, 0, 0, time.UTC)\<close>:
  the instant of \<^verbatim>\<open>time.Unix(1736942400, 0)\<close>, in UTC.  \<open>fixedReading\<close> is a reading of
  \<^verbatim>\<open>time.Now\<close> in the same second, 500 nanoseconds later, with a monotonic clock reading.
  \<open>lastMinutes\<close> is \<^verbatim>\<open>time.Unix(9223371974719178907, 0)\<close>, 100 seconds before the last
  second a \<^verbatim>\<open>Time\<close> can hold.  \<open>expecting_sign\<close> is a signer that signs the token only if
  its claims \<^verbatim>\<open>iat\<close> and \<^verbatim>\<open>exp\<close> are the expected ones.

  \<open>effect_unmarshal\<close> is a decoder given by what it does to the value behind the result
  pointer.  \<open>post_decodings\<close> gives \<^verbatim>\<open>json.Unmarshal\<close> on three bodies: an object whose
  \<^verbatim>\<open>posts\<close> member is well-formed and whose \<^verbatim>\<open>meta\<close> member is a number stores the
  post, allocates the \<^verbatim>\<open>Meta\<close> and reports the type error; the empty object changes
  nothing; an empty array empties the collection.
\<close>

definition table_unmarshal :: "(string \<times> 'r) list \<Rightarrow> string \<Rightarrow> 'r \<Rightarrow> ext_error option \<times> 'r" where
  "table_unmarshal table body r =
     (case map_of table body of
        Some v \<Rightarrow> (None, v)
      | None \<Rightarrow> (Some (Foreign ''invalid character looking for beginning of value''), r))"

definition effect_unmarshal ::
  "(string \<times> ('r \<Rightarrow> ext_error option \<times> 'r)) list \<Rightarrow> string \<Rightarrow> 'r \<Rightarrow> ext_error option \<times> 'r" where
  "effect_unmarshal table body r =
     (case map_of table body of
        Some f \<Rightarrow> f r
      | None \<Rightarrow> (Some (Foreign ''invalid character looking for beginning of value''), r))"

definition table_codec :: "(string \<times> 'r) list \<Rightarrow> ('b, 'r) codec" where
  "table_codec table = \<lparr>Marshal = (\<lambda>b. Inr ''{}''), Unmarshal = table_unmarshal table\<rparr>"

definition error_bodies :: "(string \<times> ErrorResponse) list" where
  \<open>error_bodies =
     [(''{"errors":[{"message":"Validation failed","context":"Title is required"}]}'',
         \<lparr>Errors = [\<lparr>Message = ''Validation failed'', Context = ''Title is required'', Type = ''''\<rparr>]\<rparr>),
      (''{"errors":[{"message":"Not found"}]}'',
         \<lparr>Errors = [\<lparr>Message = ''Not found'', Context = '''', Type = ''''\<rparr>]\<rparr>),
      (''{"errors":[]}'', \<lparr>Errors = []\<rparr>)]\<close>

definition post_bodies :: "(string \<times> string PostsResponse) list" where
  \<open>post_bodies =
     [(''{"posts":[{"id":"123"}]}'', \<lparr>Posts = [''123''], posts_Meta = None\<rparr>),
      (''{"posts":[]}'', \<lparr>Posts = [], posts_Meta = None\<rparr>)]\<close>

definition post_decodings ::
  "(string \<times> (string PostsResponse \<Rightarrow> ext_error option \<times> string PostsResponse)) list" where
  \<open>post_decodings =
     [(''{"posts":[{"id":"first"}],"meta":5}'',
         (\<lambda>r. (Some (Foreign ''json: cannot unmarshal number into Go struct field PostsResponse.meta of type libecto.Meta''),
                r\<lparr>Posts := [''first''], posts_Meta := Some \<lparr>meta_Pagination = zero_Pagination\<rparr>\<rparr>))),
      (''{}'', (\<lambda>r. (None, r))),
      (''{"posts":[]}'', (\<lambda>r. (None, r\<lparr>Posts := []\<rparr>)))]\<close>

definition effect_codec :: "(unit, string PostsResponse) codec" where
  "effect_codec = \<lparr>Marshal = (\<lambda>b. Inr ''{}''), Unmarshal = effect_unmarshal post_decodings\<rparr>"

definition page_bodies :: "(string \<times> string PagesResponse) list" where
  \<open>page_bodies =
     [(''{"pages":[{"id":"123"}]}'', \<lparr>Pages_of = [''123''], pages_Meta = None\<rparr>),
      (''{"pages":[]}'', \<lparr>Pages_of = [], pages_Meta = None\<rparr>)]\<close>

definition tag_bodies :: "(string \<times> string TagsResponse) list" where
  \<open>tag_bodies =
     [(''{"tags":[{"id":"123"}]}'', \<lparr>Tags = [''123''], tags_Meta = None\<rparr>),
      (''{"tags":[]}'', \<lparr>Tags = [], tags_Meta = None\<rparr>)]\<close>

definition newsletter_bodies :: "(string \<times> string NewslettersResponse) list" where
  \<open>newsletter_bodies =
     [(''{"newsletters":[{"id":"123"}]}'', \<lparr>Newsletters = [''123'']\<rparr>),
      (''{"newsletters":[]}'', \<lparr>Newsletters = []\<rparr>)]\<close>

definition webhook_bodies :: "(string \<times> string WebhooksResponse) list" where
  \<open>webhook_bodies =
     [(''{"webhooks":[{"id":"123"}]}'', \<lparr>Webhooks = [''123'']\<rparr>),
      (''{"webhooks":[]}'', \<lparr>Webhooks = []\<rparr>)]\<close>

definition image_bodies :: "(string \<times> string ImagesResponse) list" where
  \<open>image_bodies = [(''{"images":[{"url":"https://example.com/test.jpg"}]}'',
                      \<lparr>Images = [''https://example.com/test.jpg'']\<rparr>)]\<close>

definition fixed_server :: "int \<Rightarrow> string \<Rightarrow> Request list \<Rightarrow> Request \<Rightarrow> ext_error + Response" where
  "fixed_server status body history req = Inr \<lparr>StatusCode = status, Body = Inr body\<rparr>"

definition fallback_server :: "string \<Rightarrow> Request list \<Rightarrow> Request \<Rightarrow> ext_error + Response" where
  \<open>fallback_server body history req =
     (if history = []
      then Inr \<lparr>StatusCode = 404, Body = Inr ''{"errors":[{"message":"Not found"}]}''\<rparr>
      else Inr \<lparr>StatusCode = 200, Body = Inr body\<rparr>)\<close>

definition unreachable_server :: "Request list \<Rightarrow> Request \<Rightarrow> ext_error + Response" where
  "unreachable_server history req = Inl (Foreign ''dial tcp: connection refused'')"

definition test_sign :: signer where
  "test_sign token secret = Inr ''header.claims.signature''"

definition test_open :: "string \<Rightarrow> ext_error + (ext_error + string)" where
  "test_open path =
     (if path = ''/tmp/test.jpg'' then Inr (Inr ''fake image data'')
      else Inl (Foreign ''open: no such file or directory''))"

definition test_env :: "(Request list \<Rightarrow> Request \<Rightarrow> ext_error + Response) \<Rightarrow> env" where
  "test_env server =
     \<lparr>SignedString = test_sign,
      NewRequest_error = (\<lambda>method url. None),
      Do = server,
      UnmarshalErrorResponse = table_unmarshal error_bodies,
      Open = test_open,
      CreateFormFile_error = (\<lambda>fieldname filename. None),
      RandomBoundary = (\<lambda>n. ''boundary'')\<rparr>"

definition testAPIKey :: string where
  "testAPIKey = ''test123:7365637265746b6579313233''"

definition test_client :: Client where
  "test_client = NewClient ''http://localhost'' testAPIKey"

definition bad_client :: Client where
  "bad_client = NewClient ''http://localhost'' ''invalid-key''"

definition fixedTime :: Time where
  "fixedTime = (time_Unix 1736942400 0)\<lparr>loc := None\<rparr>"

definition fixedReading :: Time where
  "fixedReading =
     \<lparr>wall = hasMonotonic OR push_bit nsecShift (1736942400 + unixToInternal - wallToInternal) OR 500,
      ext = 12345, loc = Local\<rparr>"

definition lastMinutes :: Time where
  "lastMinutes = time_Unix 9223371974719178907 0"

definition expecting_sign :: "int \<Rightarrow> int \<Rightarrow> signer" where
  "expecting_sign iat exp token secret =
     (if Claims token ''iat'' = Some (JInt iat) \<and> Claims token ''exp'' = Some (JInt exp)
      then Inr ''header.claims.signature''
      else Inl (Foreign ''unexpected claims''))"

definition world0 :: world where
  "world0 = \<lparr>clock = (\<lambda>n. fixedTime), clock_reads = 0, sent = [], opened = [],
              boundaries = 0, calls = []\<rparr>"

text \<open>
  A server that answers by the URL of the request, with one status for the URLs it knows
  and 404 for the others; and the answers to the seven writes, once with empty collections
  and once with one record each.
\<close>

definition routed_server ::
  "int \<Rightarrow> (string \<times> string) list \<Rightarrow> Request list \<Rightarrow> Request \<Rightarrow> ext_error + Response" where
  \<open>routed_server status routes history req =
     (case map_of routes (req_URL req) of
        Some body \<Rightarrow> Inr \<lparr>StatusCode = status, Body = Inr body\<rparr>
      | None \<Rightarrow> Inr \<lparr>StatusCode = 404, Body = Inr ''{"errors":[{"message":"Not found"}]}''\<rparr>)\<close>

definition write_urls :: "string list" where
  "write_urls =
     [''http://localhost/ghost/api/admin/posts/?source=html&formats=html'',
      ''http://localhost/ghost/api/admin/posts/123/?source=html&formats=html'',
      ''http://localhost/ghost/api/admin/pages/?formats=html'',
      ''http://localhost/ghost/api/admin/pages/123/?formats=html'',
      ''http://localhost/ghost/api/admin/tags/'',
      ''http://localhost/ghost/api/admin/tags/123/'',
      ''http://localhost/ghost/api/admin/webhooks/'']"

definition empty_answers :: "(string \<times> string) list" where
  \<open>empty_answers =
     zip write_urls
       [''{"posts":[]}'', ''{"posts":[]}'', ''{"pages":[]}'', ''{"pages":[]}'',
        ''{"tags":[]}'', ''{"tags":[]}'', ''{"webhooks":[]}'']\<close>

definition record_answers :: "(string \<times> string) list" where
  \<open>record_answers =
     zip write_urls
       [''{"posts":[{"id":"123"}]}'', ''{"posts":[{"id":"123"}]}'',
        ''{"pages":[{"id":"123"}]}'', ''{"pages":[{"id":"123"}]}'',
        ''{"tags":[{"id":"123"}]}'', ''{"tags":[{"id":"123"}]}'',
        ''{"webhooks":[{"id":"123"}]}'']\<close>

text \<open>
  The answers of a site to the two requests of \<^verbatim>\<open>GetPost("my-post")\<close>: to the request by
  identifier a post and a malformed \<^verbatim>\<open>meta\<close>, to the request by slug the empty object.
\<close>

definition stale_answers :: "(string \<times> string) list" where
  \<open>stale_answers =
     [(''http://localhost/ghost/api/admin/posts/my-post/?formats=html'',
         ''{"posts":[{"id":"first"}],"meta":5}''),
      (''http://localhost/ghost/api/admin/posts/slug/my-post/?formats=html'', ''{}'')]\<close>

section \<open>Properties of the API key parser\<close>

lemma between_chars:
  fixes c :: char
  assumes "of_char lo \<le> (of_char c :: nat)" "of_char c \<le> (of_char hi :: nat)"
  shows "c \<in> set (map char_of [of_char lo ..< Suc (of_char hi) :: nat])"
proof -
  have "(of_char c :: nat) \<in> set [of_char lo ..< Suc (of_char hi)]" using assms
    by (simp only: set_upt atLeastLessThan_iff less_Suc_eq_le simp_thms)
  then have "char_of (of_char c :: nat) \<in> set (map char_of [of_char lo ..< Suc (of_char hi) :: nat])"
    unfolding set_map by (rule imageI)
  then show ?thesis by simp
qed

lemma digits_enum: "map char_of [of_char CHR ''0'' ..< Suc (of_char CHR ''9'') :: nat] = ''0123456789''"
  by code_simp

lemma lower_enum: "map char_of [of_char CHR ''a'' ..< Suc (of_char CHR ''f'') :: nat] = ''abcdef''"
  by code_simp

lemma upper_enum: "map char_of [of_char CHR ''A'' ..< Suc (of_char CHR ''F'') :: nat] = ''ABCDEF''"
  by code_simp

lemma hex_digit_cases:
  "is_hex_digit c \<longleftrightarrow> c \<in> set ''0123456789abcdefABCDEF''"
proof
  assume "is_hex_digit c"
  then have "c \<in> set ''0123456789'' \<or> c \<in> set ''abcdef'' \<or> c \<in> set ''ABCDEF''"
    unfolding is_hex_digit_def less_eq_char_def
    using between_chars[of "CHR ''0''" c "CHR ''9''"] between_chars[of "CHR ''a''" c "CHR ''f''"]
      between_chars[of "CHR ''A''" c "CHR ''F''"]
    unfolding digits_enum lower_enum upper_enum by blast
  then show "c \<in> set ''0123456789abcdefABCDEF''" by auto
next
  assume "c \<in> set ''0123456789abcdefABCDEF''"
  then show "is_hex_digit c"
    by (auto simp: is_hex_digit_def less_eq_char_def)
qed

lemma hex_table_all:
  "list_all (\<lambda>c. reverseHexTable c \<le> 0x0f \<and> hextable ! unat (reverseHexTable c) = to_lower c)
     ''0123456789abcdefABCDEF''"
  by code_simp

lemma hex_table_values:
  "is_hex_digit c \<Longrightarrow>
     reverseHexTable c \<le> 0x0f \<and> hextable ! unat (reverseHexTable c) = to_lower c"
  using hex_table_all unfolding hex_digit_cases list_all_iff by blast

lemma hex_table_other: "\<not> is_hex_digit c \<Longrightarrow> reverseHexTable c = 0xff"
proof -
  assume "\<not> is_hex_digit c"
  then have "\<not> (48 \<le> (of_char c :: nat) \<and> (of_char c :: nat) \<le> 57)"
    "\<not> (97 \<le> (of_char c :: nat) \<and> (of_char c :: nat) \<le> 102)"
    "\<not> (65 \<le> (of_char c :: nat) \<and> (of_char c :: nat) \<le> 70)"
    by (simp_all add: is_hex_digit_def less_eq_char_def)
  then show ?thesis
    unfolding reverseHexTable_def Let_def by (simp only: if_False)
qed

lemma Split_nonempty: "Split s sep \<noteq> []"
  by (induction s) (auto split: list.splits)

lemma length_Split: "length (Split s sep) = Suc (count_list s sep)"
  using Split_nonempty by (induction s) (auto split: list.splits)

lemma Split_no_sep: "sep \<notin> set s \<Longrightarrow> Split s sep = [s]"
  by (induction s) auto

lemma Split_one_sep:
  "count_list s sep = 1 \<Longrightarrow>
     Split s sep = [takeWhile (\<lambda>c. c \<noteq> sep) s, drop 1 (dropWhile (\<lambda>c. c \<noteq> sep) s)]"
proof (induction s)
  case Nil
  then show ?case by simp
next
  case (Cons c cs)
  show ?case
  proof (cases "c = sep")
    case True
    with Cons.prems have "count_list cs sep = 0" by simp
    then have "sep \<notin> set cs" by (simp add: count_list_0_iff)
    with True show ?thesis by (simp add: Split_no_sep)
  next
    case False
    with Cons show ?thesis by simp
  qed
qed

lemma nib: "take_bit 4 a = a" if "a \<le> (15 :: 8 word)"
proof -
  have "a < 2 ^ 4" using that by (simp add: word_less_nat_alt word_le_nat_alt)
  then show ?thesis by (simp only: take_bit_eq_mask less_mask_eq)
qed

lemma high_nibble: "drop_bit 4 (push_bit 4 a OR b) = (a::8 word)" if "a \<le> 15" "b \<le> 15"
proof -
  have "drop_bit 4 (push_bit 4 (take_bit 4 a) OR take_bit 4 b) = take_bit 4 a"
    by (rule bit_word_eqI) (auto simp: bit_simps)
  then show ?thesis by (simp only: nib that)
qed

lemma low_nibble: "(push_bit 4 a OR b) AND 15 = (b::8 word)" if "a \<le> 15" "b \<le> 15"
proof -
  have m: "(15 :: 8 word) = mask 4" by (simp add: mask_eq_exp_minus_1)
  have "(push_bit 4 (take_bit 4 a) OR take_bit 4 b) AND mask 4 = take_bit 4 b"
    by (rule bit_word_eqI) (auto simp: bit_simps)
  then show ?thesis unfolding m by (simp only: nib that)
qed

lemma hex_of_byte:
  assumes "is_hex_digit p" "is_hex_digit q"
  shows "hex_of_bytes [push_bit 4 (reverseHexTable p) OR reverseHexTable q] = [to_lower p, to_lower q]"
proof -
  from assms have ab: "reverseHexTable p \<le> 15" "reverseHexTable q \<le> 15"
    using hex_table_values by auto
  have "hex_of_bytes [push_bit 4 (reverseHexTable p) OR reverseHexTable q] =
      [hextable ! unat (reverseHexTable p), hextable ! unat (reverseHexTable q)]"
    unfolding hex_of_bytes_def list.map concat.simps append_Nil2
    by (simp only: high_nibble[OF ab] low_nibble[OF ab])
  with assms show ?thesis by (simp add: hex_table_values)
qed

lemma hex_of_bytes_Cons: "hex_of_bytes (b # bs) = hex_of_bytes [b] @ hex_of_bytes bs"
  by (simp add: hex_of_bytes_def)

lemma Decode_valid:
  "valid_hex s \<Longrightarrow> \<exists>bs. Decode dst s = (dst @ bs, None) \<and> hex_of_bytes bs = map to_lower s"
proof (induction dst s rule: Decode.induct)
  case (1 dst p q src)
  let ?v = "push_bit 4 (reverseHexTable p) OR reverseHexTable q"
  from "1.prems" have pq: "is_hex_digit p" "is_hex_digit q" and rest: "valid_hex src"
    by (simp_all add: valid_hex_def)
  from pq have nab: "\<not> 15 < reverseHexTable p" "\<not> 15 < reverseHexTable q"
    using hex_table_values by (auto simp: not_less)
  from "1.IH"[OF refl refl nab rest]
  obtain bs where bs: "Decode (dst @ [?v]) src = ((dst @ [?v]) @ bs, None)"
    and enc: "hex_of_bytes bs = map to_lower src" by auto
  have step: "Decode dst (p # q # src) = Decode (dst @ [?v]) src"
    using nab by (simp add: Let_def)
  have "hex_of_bytes (?v # bs) = map to_lower (p # q # src)"
    using hex_of_byte[OF pq] enc by (subst hex_of_bytes_Cons) simp
  with step bs show ?case by (intro exI[of _ "?v # bs"]) simp
next
  case (2 dst p)
  then show ?case by (simp add: valid_hex_def)
next
  case (3 dst)
  then show ?case by (simp add: hex_of_bytes_def)
qed

lemma Decode_invalid: "\<not> valid_hex s \<Longrightarrow> snd (Decode dst s) \<noteq> None"
proof (induction dst s rule: Decode.induct)
  case (1 dst p q src)
  show ?case
  proof (cases "is_hex_digit p \<and> is_hex_digit q")
    case True
    then have nab: "\<not> 15 < reverseHexTable p" "\<not> 15 < reverseHexTable q"
      using hex_table_values by (auto simp: not_less)
    from True "1.prems" have "\<not> valid_hex src" by (simp add: valid_hex_def)
    from "1.IH"[OF refl refl nab this] nab show ?thesis by (simp add: Let_def)
  next
    case False
    then have "15 < reverseHexTable p \<or> 15 < reverseHexTable q"
      using hex_table_other[of p] hex_table_other[of q] by auto
    then show ?thesis by (auto simp: Let_def)
  qed
qed (simp_all add: valid_hex_def)

lemma to_lower_hex: "to_lower c \<in> set hextable \<Longrightarrow> is_hex_digit c"
proof -
  assume h: "to_lower c \<in> set hextable"
  show ?thesis
  proof (cases "map_of (zip ''ABCDEFGHIJKLMNOPQRSTUVWXYZ'' ''abcdefghijklmnopqrstuvwxyz'') c")
    case None
    with h have "c \<in> set hextable" by (simp add: to_lower_def)
    then show ?thesis unfolding hex_digit_cases hextable_def by auto
  next
    case (Some d)
    then have "(c, d) \<in> set (zip ''ABCDEFGHIJKLMNOPQRSTUVWXYZ'' ''abcdefghijklmnopqrstuvwxyz'')"
      by (rule map_of_SomeD)
    moreover from Some h have "d \<in> set hextable" by (simp add: to_lower_def)
    ultimately show ?thesis unfolding hex_digit_cases hextable_def by auto
  qed
qed

lemma nibble_index: "unat (drop_bit 4 (v :: byte)) < 16" "unat (v AND 0x0f) < 16"
proof -
  have "unat v < 256" using unsigned_less[of v, where ?'a = nat] by simp
  then show "unat (drop_bit 4 v) < 16"
    by (simp add: drop_bit_eq_div unat_div)
  have m: "(0x0f :: byte) = mask 4" by (simp add: mask_eq_exp_minus_1)
  show "unat (v AND 0x0f) < 16"
    unfolding m take_bit_eq_mask[symmetric]
    by (simp add: take_bit_eq_mod unat_mod)
qed


lemma hex_of_bytes_digits: "list_all (\<lambda>c. c \<in> set hextable) (hex_of_bytes bs)"
proof -
  have "length hextable = 16" by (simp add: hextable_def)
  then have "hextable ! unat (drop_bit 4 v) \<in> set hextable"
    "hextable ! unat (v AND 0x0f) \<in> set hextable" for v :: byte
    using nibble_index[of v] by simp_all
  then show ?thesis
    unfolding hex_of_bytes_def by (induction bs) simp_all
qed

lemma length_hex_of_bytes: "length (hex_of_bytes bs) = 2 * length bs"
  unfolding hex_of_bytes_def by (induction bs) simp_all

text \<open>
  Valid hexadecimal, said twice: an even number of hexadecimal digits is exactly the
  hexadecimal text, letter case apart, of some byte sequence.
\<close>

lemma valid_hex_iff_text:
  "valid_hex s \<longleftrightarrow> (\<exists>bs. hex_of_bytes bs = map to_lower s)"
proof
  assume "valid_hex s"
  then show "\<exists>bs. hex_of_bytes bs = map to_lower s"
    using Decode_valid[of s "[]"] by auto
next
  assume "\<exists>bs. hex_of_bytes bs = map to_lower s"
  then obtain bs where bs: "hex_of_bytes bs = map to_lower s" ..
  have "even (length s)"
    using length_hex_of_bytes[of bs] unfolding bs by simp
  moreover have "list_all is_hex_digit s"
    using hex_of_bytes_digits[of bs] unfolding bs
    by (auto simp: list_all_iff intro: to_lower_hex)
  ultimately show "valid_hex s" by (simp add: valid_hex_def)
qed

lemma ParseAPIKey_one_sep:
  assumes "count_list k CHR '':'' = 1"
  shows "ParseAPIKey k =
     (if key_id k = [] then Inl KeyFormatEmptyId
      else if key_secret k = [] then Inl KeyFormatEmptySecret
      else (case DecodeString (key_secret k) of
              (secret, Some err) \<Rightarrow> Inl (KeySecretInvalid err)
            | (secret, None) \<Rightarrow> Inr (key_id k, secret)))"
  unfolding ParseAPIKey_def Split_one_sep[OF assms] key_id_def key_secret_def
  by (simp add: Let_def)

lemma ParseAPIKey_other_sep:
  "count_list k CHR '':'' \<noteq> 1 \<Longrightarrow> ParseAPIKey k = Inl KeyFormatExpected"
  unfolding ParseAPIKey_def by (simp add: length_Split Let_def)

text \<open>
  C3.  For every string \<open>k\<close>: when \<open>k\<close> has exactly one separator, a non-empty id
  segment and a non-empty secret segment that is valid hexadecimal, \<open>ParseAPIKey\<close> returns
  the id segment and the bytes whose hexadecimal text is the secret segment (up to the case
  of the letters); when \<open>k\<close> has no separator or more than one, or an empty id segment,
  or an empty secret segment, or a secret segment that is not valid hexadecimal, it fails.
  Valid hexadecimal is the text of a byte sequence: hexadecimal digits, two for each byte.
\<close>

theorem ParseAPIKey_spec:
  "(count_list k CHR '':'' = 1 \<and> key_id k \<noteq> [] \<and> key_secret k \<noteq> [] \<and> valid_hex (key_secret k)
      \<longrightarrow> (\<exists>secret. ParseAPIKey k = Inr (key_id k, secret) \<and>
                    hex_of_bytes secret = map to_lower (key_secret k)))
   \<and> (count_list k CHR '':'' \<noteq> 1 \<or> key_id k = [] \<or> key_secret k = [] \<or> \<not> valid_hex (key_secret k)
      \<longrightarrow> isl (ParseAPIKey k))"
proof (intro conjI impI)
  assume a: "count_list k CHR '':'' = 1 \<and> key_id k \<noteq> [] \<and> key_secret k \<noteq> [] \<and> valid_hex (key_secret k)"
  then obtain bs where "DecodeString (key_secret k) = (bs, None)"
    and "hex_of_bytes bs = map to_lower (key_secret k)"
    using Decode_valid[of "key_secret k" "[]"] by (auto simp: DecodeString_def)
  with a show "\<exists>secret. ParseAPIKey k = Inr (key_id k, secret) \<and>
                    hex_of_bytes secret = map to_lower (key_secret k)"
    by (simp add: ParseAPIKey_one_sep)
next
  assume b: "count_list k CHR '':'' \<noteq> 1 \<or> key_id k = [] \<or> key_secret k = [] \<or> \<not> valid_hex (key_secret k)"
  show "isl (ParseAPIKey k)"
  proof (cases "count_list k CHR '':'' = 1")
    case False
    then show ?thesis by (simp add: ParseAPIKey_other_sep)
  next
    case True
    show ?thesis
    proof (cases "key_id k = [] \<or> key_secret k = []")
      case True
      with \<open>count_list k CHR '':'' = 1\<close> show ?thesis by (auto simp: ParseAPIKey_one_sep)
    next
      case False
      with b True have "\<not> valid_hex (key_secret k)" by simp
      then have "snd (DecodeString (key_secret k)) \<noteq> None"
        unfolding DecodeString_def by (rule Decode_invalid)
      then obtain bs e where "DecodeString (key_secret k) = (bs, Some e)"
        by (cases "DecodeString (key_secret k)") auto
      with True False show ?thesis by (simp add: ParseAPIKey_one_sep)
    qed
  qed
qed

theorem ParseAPIKey_spec_witness:
  "(\<exists>secret. ParseAPIKey ''test123:7365637265746b6579313233'' = Inr (''test123'', secret) \<and>
       hex_of_bytes secret = ''7365637265746b6579313233'')
   \<and> isl (ParseAPIKey ''test:123:456'') \<and> isl (ParseAPIKey ''no-colon-here'')
   \<and> isl (ParseAPIKey '':7365637265746b6579313233'') \<and> isl (ParseAPIKey ''test123:'')
   \<and> isl (ParseAPIKey ''test123:notvalidhex!!'') \<and> isl (ParseAPIKey ''abc:def'')"
proof -
  have v: "valid_hex ''7365637265746b6579313233''" "\<not> valid_hex ''notvalidhex!!''"
     "\<not> valid_hex ''def''"
    by (simp_all add: valid_hex_def is_hex_digit_def less_eq_char_def)
  have l: "list_all (\<lambda>c. to_lower c = c) ''0123456789abcdef''"
    by (simp add: to_lower_def)
  show ?thesis
    using ParseAPIKey_spec[of "''test123:7365637265746b6579313233''"]
      ParseAPIKey_spec[of "''test:123:456''"] ParseAPIKey_spec[of "''no-colon-here''"]
      ParseAPIKey_spec[of "'':7365637265746b6579313233''"] ParseAPIKey_spec[of "''test123:''"]
      ParseAPIKey_spec[of "''test123:notvalidhex!!''"] ParseAPIKey_spec[of "''abc:def''"]
    using l by (simp add: key_id_def key_secret_def v)
qed


section \<open>Properties of the token\<close>

text \<open>
  The arithmetic of \<^verbatim>\<open>Time.Add\<close> for the five minutes of a token.  A duration of whole
  seconds leaves the nanosecond field alone; the seconds move by 300, or stop at the last
  second a \<^verbatim>\<open>Time\<close> can hold.
\<close>

lemma nsecMask_mask: "nsecMask = mask 30"
  by (simp add: nsecMask_def mask_eq_exp_minus_1)

lemma five_minutes: "int64_quo (5 * Minute) 1000000000 = 300" "int64_rem (5 * Minute) 1000000000 = 0"
  by code_simp+

lemma five_minutes_pos: "sint (5 * Minute :: int64) = 300000000000"
  by code_simp

lemma nsec_keep: "wall t AND NOT nsecMask OR scast (nsec t) = wall t"
  unfolding nsec_def nsecMask_mask
  apply (rule bit_word_eqI)
  apply (auto simp add: bit_simps)
  done

lemma and_mask30_lt: "uint ((w :: 64 word) AND mask 30) < 2 ^ 30"
  by (metis and_mask_lt_2p)

lemma sint_ucast_small:
  fixes x :: "64 word"
  assumes "uint x < 2 ^ 30"
  shows "sint (ucast x :: 32 word) = uint x"
proof -
  have a: "uint (ucast x :: 32 word) = uint x"
    using assms by (simp add: unsigned_ucast_eq take_bit_int_eq_self)
  have "sint (ucast x :: 32 word) = signed_take_bit 31 (uint (ucast x :: 32 word))"
    by (simp add: sint_uint)
  also have "\<dots> = uint x"
    unfolding a using assms by (intro signed_take_bit_int_eq_self) (auto intro: order_trans[of _ 0])
  finally show ?thesis .
qed

lemma sint_nsec: "sint (nsec t) = uint (wall t AND nsecMask)"
  unfolding nsec_def nsecMask_mask
  by (rule sint_ucast_small) (rule and_mask30_lt)

lemma valid_nsec: "valid_Time t \<Longrightarrow> 0 \<le> sint (nsec t) \<and> sint (nsec t) < 1000000000"
  unfolding sint_nsec valid_Time_def word_less_def by simp

lemma Add_5_minutes:
  assumes "valid_Time t"
  shows "Add t (5 * Minute) =
     (let t = addSec t 300 in
      if wall t AND hasMonotonic \<noteq> 0
         then let te = ext t + 5 * Minute in
              if sint te < sint (ext t) then stripMono t else t\<lparr>ext := te\<rparr>
         else t)"
  using valid_nsec[OF assms]
  unfolding Add_def five_minutes
  by (simp add: nsec_keep five_minutes_pos Let_def)

lemma bit_double:
  "bit (w * 2 :: 64 word) m \<longleftrightarrow> 0 < m \<and> m < 64 \<and> bit w (m - 1)"
proof -
  have e: "push_bit 1 w = w * 2" by (simp add: push_bit_eq_mult)
  have "bit (push_bit 1 w) m = (1 \<le> m \<and> possible_bit TYPE(64 word) m \<and> bit w (m - 1))"
    by (rule bit_push_bit_iff)
  then show ?thesis unfolding e by (auto simp: possible_bit_word)
qed

lemma wall_seconds_bits: "drop_bit 31 (push_bit 1 (w :: 64 word)) = take_bit 33 (drop_bit 30 w)"
  apply (rule bit_word_eqI)
  apply (auto simp add: bit_simps bit_double)
  done

lemma mod_shift_up:
  fixes y m :: int
  assumes "m \<le> y" "y < 2 * m"
  shows "y mod m = y - m"
proof -
  have "y mod m = ((y - m) + m) mod m" by simp
  also have "\<dots> = (y - m) mod m" by (rule mod_add_self2)
  also have "\<dots> = y - m" using assms by (intro mod_pos_pos_trivial) auto
  finally show ?thesis .
qed

lemma mod_shift_down:
  fixes y m :: int
  assumes "- m \<le> y" "y < 0"
  shows "y mod m = y + m"
proof -
  have "(y + m) mod m = y mod m" by (rule mod_add_self2)
  moreover have "(y + m) mod m = y + m" using assms by (intro mod_pos_pos_trivial) auto
  ultimately show ?thesis by simp
qed

lemma stb63: "signed_take_bit 63 (x :: int) = (x + 2 ^ 63) mod 2 ^ 64 - 2 ^ 63"
  by (simp add: signed_take_bit_eq_take_bit_shift take_bit_eq_mod)

lemma stb_self:
  "- (2 ^ 63) \<le> x \<Longrightarrow> x < 2 ^ 63 \<Longrightarrow> signed_take_bit 63 (x :: int) = x"
  by (rule signed_take_bit_int_eq_self) auto

lemma stb_high:
  assumes "2 ^ 63 \<le> x" "x < 2 ^ 63 + 2 ^ 64"
  shows "signed_take_bit 63 (x :: int) = x - 2 ^ 64"
  unfolding stb63 using assms by (subst mod_shift_up) auto

lemma stb_low:
  assumes "- (2 ^ 63) - 2 ^ 64 \<le> x" "x < - (2 ^ 63)"
  shows "signed_take_bit 63 (x :: int) = x + 2 ^ 64"
  unfolding stb63 using assms by (subst mod_shift_down) auto

lemma sint_bounds64: "- (2 ^ 63) \<le> sint (a :: 64 word)" "sint (a :: 64 word) < 2 ^ 63"
  using sint_ge[of a] sint_lt[of a] by simp_all

lemma sint_plus_300:
  "sint (a + 300 :: 64 word) =
     (if sint a \<le> 2 ^ 63 - 301 then sint a + 300 else sint a + 300 - 2 ^ 64)"
proof -
  have "sint (a + 300) = signed_take_bit 63 (sint a + 300)"
    by (simp add: sint_word_ariths)
  then show ?thesis
    using sint_bounds64[of a] by (auto simp: stb_self stb_high)
qed

lemma sint_to_unix:
  "sint (a + internalToUnix) =
     (if - (2 ^ 63) + 62135596800 \<le> sint a then sint a - 62135596800
      else sint a - 62135596800 + 2 ^ 64)"
proof -
  have i: "sint internalToUnix = - 62135596800" by code_simp
  have "sint (a + internalToUnix) = signed_take_bit 63 (sint a + sint internalToUnix)"
    by (simp add: sint_word_ariths)
  then show ?thesis
    unfolding i using sint_bounds64[of a] by (auto simp: stb_self stb_low)
qed

lemma bit_hasMonotonic: "bit hasMonotonic n \<longleftrightarrow> n = 63"
proof -
  have "hasMonotonic = 2 ^ 63" by (simp add: hasMonotonic_def)
  moreover have "bit (2 ^ 63 :: 64 word) n = (possible_bit TYPE(64 word) n \<and> n = 63)"
    by (rule bit_exp_iff)
  ultimately show ?thesis by (auto simp: possible_bit_word)
qed

lemma hasMonotonic_nsecMask: "(w AND nsecMask) AND hasMonotonic = 0"
  unfolding nsecMask_mask
  by (rule bit_word_eqI) (auto simp add: bit_simps bit_hasMonotonic)

lemma hasMonotonic_set: "(w OR hasMonotonic) AND hasMonotonic \<noteq> 0"
proof
  assume "(w OR hasMonotonic) AND hasMonotonic = 0"
  then have "bit ((w OR hasMonotonic) AND hasMonotonic) 63 = bit (0 :: 64 word) 63" by simp
  then show False by (simp add: bit_simps bit_hasMonotonic)
qed

lemma sec_stripMono: "sec (stripMono t) = sec t"
  unfolding stripMono_def by (simp add: sec_def hasMonotonic_nsecMask)

lemma stripMono_wall_only: "wall (stripMono t) AND hasMonotonic = 0"
  unfolding stripMono_def by (simp add: hasMonotonic_nsecMask)

lemma ext_stripMono: "ext (stripMono t) = sec t"
  unfolding stripMono_def sec_def by simp

lemma wall_seconds_take: "take_bit 33 (wall_seconds w) = wall_seconds w"
  unfolding wall_seconds_def wall_seconds_bits by simp

lemma uint_wall_seconds: "0 \<le> uint (wall_seconds w)" "uint (wall_seconds w) < 2 ^ 33"
proof -
  have "take_bit 33 (uint (wall_seconds w)) < 2 ^ 33"
    by (rule take_bit_int_less_exp)
  then have "uint (take_bit 33 (wall_seconds w)) < 2 ^ 33"
    by (simp only: unsigned_take_bit_eq)
  then show "uint (wall_seconds w) < 2 ^ 33" by (simp add: wall_seconds_take)
qed simp

lemma wall_seconds_packed:
  assumes "take_bit 33 d = d"
  shows "wall_seconds (w AND nsecMask OR push_bit 30 d OR hasMonotonic) = d"
  unfolding wall_seconds_def nsecMask_mask
  apply (subst (2) assms[symmetric])
  apply (rule bit_word_eqI)
  apply (auto simp add: bit_simps bit_double bit_hasMonotonic)
  done

lemma sint_small:
  fixes a :: "64 word"
  assumes "uint a < 2 ^ 63"
  shows "sint a = uint a"
proof -
  have "sint a = signed_take_bit 63 (uint a)" by (simp add: sint_uint)
  also have "\<dots> = uint a" using assms by (intro stb_self) (auto intro: order_trans[of _ 0])
  finally show ?thesis .
qed

lemma uint_wall_seconds_plus: "uint (wall_seconds w + 300) = uint (wall_seconds w) + 300"
proof -
  have "uint (wall_seconds w + 300) = (uint (wall_seconds w) + 300) mod 2 ^ 64"
    by (simp add: uint_word_ariths)
  also have "\<dots> = uint (wall_seconds w) + 300"
    using uint_wall_seconds[of w] by (intro mod_pos_pos_trivial) auto
  finally show ?thesis .
qed

lemma sint_wall_seconds_plus: "sint (wall_seconds w + 300) = uint (wall_seconds w) + 300"
  using uint_wall_seconds[of w] by (subst sint_small) (auto simp: uint_wall_seconds_plus)

lemma uint_packed_sec: "uint (wallToInternal + wall_seconds w) = 59453308800 + uint (wall_seconds w)"
proof -
  have w: "uint wallToInternal = 59453308800" by code_simp
  have "uint (wallToInternal + wall_seconds w) = (uint wallToInternal + uint (wall_seconds w)) mod 2 ^ 64"
    by (simp add: uint_word_ariths)
  also have "\<dots> = 59453308800 + uint (wall_seconds w)"
    unfolding w using uint_wall_seconds[of w] by (intro mod_pos_pos_trivial) auto
  finally show ?thesis .
qed

lemma sint_packed_sec: "sint (wallToInternal + wall_seconds w) = 59453308800 + uint (wall_seconds w)"
  using uint_wall_seconds[of w] by (subst sint_small) (auto simp: uint_packed_sec)

lemma wall_seconds_fold: "drop_bit (nsecShift + 1) (push_bit 1 w) = wall_seconds w"
  unfolding wall_seconds_def nsecShift_def by simp

lemma sec_alt: "sec t = (if wall t AND hasMonotonic \<noteq> 0 then wallToInternal + wall_seconds (wall t) else ext t)"
  unfolding sec_def wall_seconds_fold ..

lemma addSec_alt:
  "addSec t d =
     (let dsec = wall_seconds (wall t) + d in
      if wall t AND hasMonotonic \<noteq> 0 \<and> 0 \<le> sint dsec \<and> sint dsec \<le> 2 ^ 33 - 1
      then t\<lparr>wall := wall t AND nsecMask OR push_bit 30 dsec OR hasMonotonic\<rparr>
      else
        let t = stripMono t;
            sum = ext t + d
        in if (sint sum > sint (ext t)) = (sint d > 0) then t\<lparr>ext := sum\<rparr>
           else if sint d > 0 then t\<lparr>ext := push_bit 63 1 - 1\<rparr>
           else t\<lparr>ext := - (push_bit 63 1 - 1)\<rparr>)"
  unfolding addSec_def wall_seconds_fold unfolding nsecShift_def ..

lemma take_bit_33_small:
  fixes a :: "64 word"
  assumes "uint a < 2 ^ 33"
  shows "take_bit 33 a = a"
proof -
  have "a < 2 ^ 33" using assms by (simp add: word_less_def)
  then show ?thesis by (simp only: take_bit_eq_mask less_mask_eq)
qed

lemma packed_iff: "w AND hasMonotonic \<noteq> 0 \<longleftrightarrow> bit w 63"
proof
  assume "w AND hasMonotonic \<noteq> 0"
  then obtain n where "bit (w AND hasMonotonic) n"
    by (auto simp: bit_eq_iff)
  then show "bit w 63" by (auto simp: bit_simps bit_hasMonotonic)
next
  assume "bit w 63"
  then have "bit (w AND hasMonotonic) 63" by (simp add: bit_simps bit_hasMonotonic)
  then show "w AND hasMonotonic \<noteq> 0" by auto
qed

lemma sec_addSec_300:
  "sec (addSec t 300) = (if sint (sec t) \<le> 2 ^ 63 - 301 then sec t + 300 else 2 ^ 63 - 1)"
proof (cases "wall t AND hasMonotonic \<noteq> 0")
  case True
  let ?p = "wall_seconds (wall t)"
  have s: "sec t = wallToInternal + ?p" using True by (simp add: sec_alt)
  have small: "sint (sec t) \<le> 2 ^ 63 - 301"
    unfolding s sint_packed_sec using uint_wall_seconds[of "wall t"] by simp
  have es: "ext (stripMono t) = wallToInternal + ?p" unfolding ext_stripMono s ..
  have up: "sint (wallToInternal + ?p) < sint (wallToInternal + ?p + 300)"
    using small unfolding s sint_plus_300 by simp
  show ?thesis
  proof (cases "sint (?p + 300) \<le> 2 ^ 33 - 1")
    case fits: True
    have tb: "take_bit 33 (?p + 300) = ?p + 300"
      using fits unfolding sint_wall_seconds_plus
      by (intro take_bit_33_small) (simp add: uint_wall_seconds_plus)
    have "addSec t 300 = t\<lparr>wall := wall t AND nsecMask OR push_bit 30 (?p + 300) OR hasMonotonic\<rparr>"
      using True fits uint_wall_seconds[of "wall t"]
      unfolding addSec_alt by (simp add: sint_wall_seconds_plus Let_def)
    then have "sec (addSec t 300) = wallToInternal + (?p + 300)"
      using wall_seconds_packed[OF tb, of "wall t"]
      by (simp add: sec_alt packed_iff bit_simps bit_hasMonotonic)
    then show ?thesis using small by (simp add: s)
  next
    case False
    have "addSec t 300 = (stripMono t)\<lparr>ext := sec t + 300\<rparr>"
      using True False up
      unfolding addSec_alt by (simp add: Let_def es s)
    then have "sec (addSec t 300) = sec t + 300"
      using stripMono_wall_only[of t] by (simp add: sec_alt)
    then show ?thesis using small by simp
  qed
next
  case False
  then have s: "sec t = ext t" and m: "stripMono t = t"
    by (simp_all add: sec_alt stripMono_def)
  show ?thesis
  proof (cases "sint (ext t) \<le> 2 ^ 63 - 301")
    case True
    then have "sint (ext t) < sint (ext t + 300)" unfolding sint_plus_300 by simp
    then have "addSec t 300 = t\<lparr>ext := ext t + 300\<rparr>"
      using False unfolding addSec_alt by (simp add: Let_def m)
    then show ?thesis using False True by (simp add: sec_alt)
  next
    case over: False
    then have "\<not> sint (ext t) < sint (ext t + 300)"
      unfolding sint_plus_300 using sint_bounds64[of "ext t"] by simp
    then have "addSec t 300 = t\<lparr>ext := 2 ^ 63 - 1\<rparr>"
      using False unfolding addSec_alt by (simp add: Let_def m)
    then show ?thesis using False over by (simp add: sec_alt)
  qed
qed

lemma sec_Add_5_minutes:
  assumes "valid_Time t"
  shows "sec (Add t (5 * Minute)) =
           (if sint (sec t) \<le> 2 ^ 63 - 301 then sec t + 300 else 2 ^ 63 - 1)"
proof -
  have "sec (Add t (5 * Minute)) = sec (addSec t 300)"
    unfolding Add_5_minutes[OF assms]
    by (simp add: Let_def sec_stripMono) (simp add: sec_alt)
  then show ?thesis by (simp only: sec_addSec_300)
qed

lemma lifetime_5_minutes:
  assumes "valid_Time t"
  shows "sint (Unix (Add t (5 * Minute))) - sint (Unix t) = 300 \<longleftrightarrow> fits_5_minutes t"
proof -
  have m: "sint (2 ^ 63 - 1 :: 64 word) = 2 ^ 63 - 1" by simp
  show ?thesis
    unfolding Unix_def unixSec_def sec_Add_5_minutes[OF assms] fits_5_minutes_def
    using sint_bounds64[of "sec t"]
    by (auto simp: sint_to_unix sint_plus_300 m)
qed

lemma same_second:
  assumes "valid_Time t" "valid_Time t'" "Unix t' = Unix t"
  shows "Unix (Add t' (5 * Minute)) = Unix (Add t (5 * Minute))"
proof -
  have "sec t' = sec t" using assms(3) by (simp add: Unix_def unixSec_def)
  then show ?thesis
    unfolding Unix_def unixSec_def sec_Add_5_minutes[OF assms(1)] sec_Add_5_minutes[OF assms(2)]
    by simp
qed

text \<open>
  Every \<^verbatim>\<open>Time\<close> that \<^verbatim>\<open>time.Unix\<close> returns is well formed, whatever the seconds and
  nanoseconds it is given.
\<close>

lemma uint_of_nonneg_sint:
  fixes x :: "64 word"
  assumes "0 \<le> sint x"
  shows "uint x = sint x"
proof (cases "uint x < 2 ^ 63")
  case True
  then show ?thesis by (simp add: sint_small)
next
  case False
  have b: "uint x < 2 ^ 64" using uint_lt2p[of x] by simp
  have "sint x = signed_take_bit 63 (uint x)" by (simp add: sint_uint)
  also have "\<dots> = uint x - 2 ^ 64"
    using False b by (intro stb_high) simp_all
  finally show ?thesis using assms b by simp
qed

lemma nanoseconds_stored:
  fixes x :: "64 word"
  assumes "0 \<le> sint x" "sint x < 1000000000"
  shows "(scast (ucast x :: int32) :: uint64) AND nsecMask = x" and "x < 1000000000"
proof -
  have u: "uint x < 1000000000" using assms uint_of_nonneg_sint[of x] by simp
  then show lt: "x < 1000000000" by (simp add: word_less_def)
  have "x < 2 ^ 30" using u by (simp add: word_less_def)
  then have t: "take_bit 30 x = x" by (simp only: take_bit_eq_mask less_mask_eq)
  show "(scast (ucast x :: int32) :: uint64) AND nsecMask = x"
    unfolding nsecMask_mask
    apply (subst (2) t[symmetric])
    apply (subst t[symmetric])
    apply (rule bit_word_eqI)
    apply (auto simp add: bit_simps)
    done
qed

lemma sint_word_of_int_small:
  assumes "- (2 ^ 63) \<le> k" "k < 2 ^ 63"
  shows "sint (word_of_int k :: 64 word) = k"
  using assms by (simp add: sint_sbintrunc' stb_self)

lemma trunc_rem_bounds:
  fixes a :: int
  defines "q \<equiv> sgn a * sgn (1000000000 :: int) * (\<bar>a\<bar> div \<bar>1000000000\<bar>)"
  shows "- 1000000000 < a - q * 1000000000" "a - q * 1000000000 < 1000000000"
proof -
  define E :: int where "E = 1000000000"
  have E: "0 < E" by (simp add: E_def)
  have r: "- E < a - (sgn a * (\<bar>a\<bar> div E)) * E \<and> a - (sgn a * (\<bar>a\<bar> div E)) * E < E"
  proof (cases "0 \<le> a")
    case True
    then have "a - (sgn a * (\<bar>a\<bar> div E)) * E = a - (a div E) * E"
      by (cases "a = 0") simp_all
    also have "\<dots> = a mod E" by (simp add: minus_div_mult_eq_mod)
    finally have "a - (sgn a * (\<bar>a\<bar> div E)) * E = a mod E" .
    moreover have "0 \<le> a mod E" "a mod E < E"
      using E by (rule pos_mod_sign, rule pos_mod_bound)
    ultimately show ?thesis using E by linarith
  next
    case False
    then have "a - (sgn a * (\<bar>a\<bar> div E)) * E = - ((- a) - ((- a) div E) * E)"
      by simp
    also have "\<dots> = - ((- a) mod E)" by (simp add: minus_div_mult_eq_mod)
    finally have "a - (sgn a * (\<bar>a\<bar> div E)) * E = - ((- a) mod E)" .
    moreover have "0 \<le> (- a) mod E" "(- a) mod E < E"
      using E by (rule pos_mod_sign, rule pos_mod_bound)
    ultimately show ?thesis using E by linarith
  qed
  have "q = sgn a * (\<bar>a\<bar> div E)" unfolding q_def E_def by simp
  then show "- 1000000000 < a - q * 1000000000" "a - q * 1000000000 < 1000000000"
    using r unfolding E_def by simp_all
qed

lemma normal_nanoseconds:
  fixes ns :: int64
  defines "n \<equiv> int64_quo ns 1000000000"
  shows "- 1000000000 < sint (ns - n * 1000000000)" "sint (ns - n * 1000000000) < 1000000000"
proof -
  let ?a = "sint ns"
  let ?q = "sgn ?a * sgn (1000000000 :: int) * (\<bar>?a\<bar> div \<bar>1000000000\<bar>)"
  have e: "sint (1000000000 :: int64) = 1000000000" by simp
  have n: "n = word_of_int ?q" unfolding n_def int64_quo_def e ..
  have "ns - n * 1000000000 = word_of_int ?a - word_of_int ?q * word_of_int 1000000000"
    unfolding n by simp
  also have "\<dots> = word_of_int (?a - ?q * 1000000000)"
    by (simp only: wi_hom_mult wi_hom_sub)
  finally have w: "ns - n * 1000000000 = word_of_int (?a - ?q * 1000000000)" .
  have "sint (ns - n * 1000000000) = ?a - ?q * 1000000000"
    unfolding w using trunc_rem_bounds[of ?a] by (intro sint_word_of_int_small) simp_all
  then show "- 1000000000 < sint (ns - n * 1000000000)" "sint (ns - n * 1000000000) < 1000000000"
    using trunc_rem_bounds[of ?a] by simp_all
qed

lemma sint_plus_second:
  fixes x :: int64
  assumes "- 1000000000 < sint x" "sint x < 0"
  shows "sint (x + 1000000000) = sint x + 1000000000"
proof -
  have "sint (x + 1000000000) = signed_take_bit 63 (sint x + 1000000000)"
    by (simp add: sint_word_ariths)
  then show ?thesis using assms by (simp add: stb_self)
qed

lemma valid_time_Unix: "valid_Time (time_Unix s ns)"
proof -
  have v: "valid_Time (unixTime s' (ucast x))" if "0 \<le> sint x" "sint x < 1000000000" for s' and x :: int64
    unfolding valid_Time_def unixTime_def using nanoseconds_stored[OF that] by simp
  show ?thesis
  proof (cases "sint ns < 0 \<or> sint ns \<ge> 1000000000")
    case False
    then show ?thesis unfolding time_Unix_def by (simp add: v)
  next
    case True
    let ?n = "int64_quo ns 1000000000"
    let ?r = "ns - ?n * 1000000000"
    note b = normal_nanoseconds[of ns]
    show ?thesis
    proof (cases "sint ?r < 0")
      case neg: True
      have "sint (?r + 1000000000) = sint ?r + 1000000000"
        using b neg by (intro sint_plus_second) simp_all
      then have "valid_Time (unixTime (s + ?n - 1) (ucast (?r + 1000000000)))"
        using b neg by (intro v) simp_all
      then show ?thesis unfolding time_Unix_def using True neg by (simp add: Let_def)
    next
      case False
      then have "valid_Time (unixTime (s + ?n) (ucast ?r))"
        using b by (intro v) simp_all
      then show ?thesis unfolding time_Unix_def using True False by (simp add: Let_def)
    qed
  qed
qed

lemma ParseAPIKey_testAPIKey:
  "ParseAPIKey testAPIKey = Inr (''test123'', [115, 101, 99, 114, 101, 116, 107, 101, 121, 49, 50, 51])"
  unfolding testAPIKey_def by code_simp

text \<open>
  C4.  When the credential parses to \<open>(kid, secret)\<close>, what \<open>GenerateTokenWithTime\<close>
  hands to the signer, whatever the signer, is one token with the key \<open>secret\<close>: its
  issued-at claim is the Unix second of \<open>now\<close>, its audience claim is \<^verbatim>\<open>/admin/\<close> and its
  key-id header is \<open>kid\<close>.  Its expires-at claim minus its issued-at claim is 300 seconds
  exactly when \<open>now\<close> fits five minutes: not in the last 300 seconds a \<^verbatim>\<open>Time\<close> can hold,
  where \<^verbatim>\<open>Add\<close> stops at the last second, and not in the 300 seconds where the Unix second
  of \<open>now\<close> wraps around and that of the expiry does not.  The token is a function of the
  parsed credential and of the Unix second of the time alone: two credentials that parse
  alike, with two times of the same Unix second, however the two \<^verbatim>\<open>Time\<close> values hold it
  (nanoseconds, monotonic reading and location may differ), give the same call of the
  signer and so the same token.
\<close>

theorem GenerateTokenWithTime_claims:
  "(\<forall>k' t'. valid_Time now \<and> valid_Time t' \<and> ParseAPIKey k' = ParseAPIKey k \<and> Unix t' = Unix now \<longrightarrow>
        GenerateTokenWithTime S k' t' = GenerateTokenWithTime S k now)
   \<and> (\<forall>kid secret. ParseAPIKey k = Inr (kid, secret) \<longrightarrow>
        (\<exists>token. (\<forall>S'. GenerateTokenWithTime S' k now = external (S' token secret)) \<and>
           (\<exists>iat exp. Claims token ''iat'' = Some (JInt iat) \<and>
                      Claims token ''exp'' = Some (JInt exp) \<and>
                      iat = sint (Unix now) \<and>
                      (valid_Time now \<longrightarrow> (exp - iat = 300) = fits_5_minutes now)) \<and>
           Claims token ''aud'' = Some (JString ''/admin/'') \<and>
           tok_Header token ''kid'' = Some (JString kid)))"
proof (intro conjI allI impI)
  fix k' t'
  assume h: "valid_Time now \<and> valid_Time t' \<and> ParseAPIKey k' = ParseAPIKey k \<and> Unix t' = Unix now"
  then have a: "Unix (Add t' (5 * Minute)) = Unix (Add now (5 * Minute))"
    by (intro same_second) simp_all
  from h have u: "Unix t' = Unix now" and p: "ParseAPIKey k' = ParseAPIKey k" by simp_all
  show "GenerateTokenWithTime S k' t' = GenerateTokenWithTime S k now"
    unfolding GenerateTokenWithTime_def a u p ..
next
  fix kid secret assume p: "ParseAPIKey k = Inr (kid, secret)"
  let ?claims = "[''iat'' \<mapsto> JInt (sint (Unix now)),
                  ''exp'' \<mapsto> JInt (sint (Unix (Add now (5 * Minute)))),
                  ''aud'' \<mapsto> JString ''/admin/'']"
  let ?t0 = "NewWithClaims SigningMethodHS256 ?claims"
  let ?t1 = "?t0\<lparr>tok_Header := (tok_Header ?t0)(''kid'' \<mapsto> JString kid)\<rparr>"
  let ?token = "?t1\<lparr>tok_Header := (tok_Header ?t1)(''typ'' \<mapsto> JString ''JWT'')\<rparr>"
  have "\<forall>S'. GenerateTokenWithTime S' k now = external (S' ?token secret)"
    unfolding GenerateTokenWithTime_def by (simp add: p Let_def)
  moreover have "\<exists>iat exp. Claims ?token ''iat'' = Some (JInt iat) \<and>
                      Claims ?token ''exp'' = Some (JInt exp) \<and>
                      iat = sint (Unix now) \<and>
                      (valid_Time now \<longrightarrow> (exp - iat = 300) = fits_5_minutes now)"
    by (simp add: NewWithClaims_def lifetime_5_minutes)
  moreover have "Claims ?token ''aud'' = Some (JString ''/admin/'')"
    by (simp add: NewWithClaims_def)
  moreover have "tok_Header ?token ''kid'' = Some (JString kid)"
    by (simp add: NewWithClaims_def)
  ultimately show "\<exists>token. (\<forall>S'. GenerateTokenWithTime S' k now = external (S' token secret)) \<and>
           (\<exists>iat exp. Claims token ''iat'' = Some (JInt iat) \<and>
                      Claims token ''exp'' = Some (JInt exp) \<and>
                      iat = sint (Unix now) \<and>
                      (valid_Time now \<longrightarrow> (exp - iat = 300) = fits_5_minutes now)) \<and>
           Claims token ''aud'' = Some (JString ''/admin/'') \<and>
           tok_Header token ''kid'' = Some (JString kid)"
    by blast
qed

lemma fixedTime_facts:
  "valid_Time fixedTime" "fits_5_minutes fixedTime" "sint (Unix fixedTime) = 1736942400"
  "valid_Time fixedReading" "Unix fixedReading = Unix fixedTime"
  by code_simp+

theorem GenerateTokenWithTime_claims_witness:
  "valid_Time fixedTime \<and> valid_Time fixedReading \<and> Unix fixedReading = Unix fixedTime
   \<and> fits_5_minutes fixedTime
   \<and> GenerateTokenWithTime (expecting_sign 1736942400 1736942700) testAPIKey fixedReading
       = GenerateTokenWithTime (expecting_sign 1736942400 1736942700) testAPIKey fixedTime
   \<and> (\<exists>token. GenerateTokenWithTime test_sign testAPIKey fixedTime =
          external (test_sign token [115, 101, 99, 114, 101, 116, 107, 101, 121, 49, 50, 51]) \<and>
        Claims token ''iat'' = Some (JInt 1736942400) \<and>
        Claims token ''exp'' = Some (JInt 1736942700) \<and>
        Claims token ''aud'' = Some (JString ''/admin/'') \<and>
        tok_Header token ''kid'' = Some (JString ''test123''))"
proof -
  note T = GenerateTokenWithTime_claims[of fixedTime testAPIKey]
  from T[of "expecting_sign 1736942400 1736942700"]
  have same: "GenerateTokenWithTime (expecting_sign 1736942400 1736942700) testAPIKey fixedReading
       = GenerateTokenWithTime (expecting_sign 1736942400 1736942700) testAPIKey fixedTime"
    using fixedTime_facts by blast
  from T[of test_sign] ParseAPIKey_testAPIKey
  obtain token where t:
    "\<forall>S'. GenerateTokenWithTime S' testAPIKey fixedTime =
        external (S' token [115, 101, 99, 114, 101, 116, 107, 101, 121, 49, 50, 51])"
    "\<exists>iat exp. Claims token ''iat'' = Some (JInt iat) \<and> Claims token ''exp'' = Some (JInt exp) \<and>
        iat = sint (Unix fixedTime) \<and>
        (valid_Time fixedTime \<longrightarrow> (exp - iat = 300) = fits_5_minutes fixedTime)"
    "Claims token ''aud'' = Some (JString ''/admin/'')"
    "tok_Header token ''kid'' = Some (JString ''test123'')"
    by blast
  from t(2) obtain exp where e:
    "Claims token ''iat'' = Some (JInt 1736942400)" "Claims token ''exp'' = Some (JInt exp)"
    "exp - 1736942400 = 300"
    using fixedTime_facts by auto
  from e(3) have "exp = 1736942700" by simp
  with t e have "GenerateTokenWithTime test_sign testAPIKey fixedTime =
          external (test_sign token [115, 101, 99, 114, 101, 116, 107, 101, 121, 49, 50, 51]) \<and>
        Claims token ''iat'' = Some (JInt 1736942400) \<and>
        Claims token ''exp'' = Some (JInt 1736942700) \<and>
        Claims token ''aud'' = Some (JString ''/admin/'') \<and>
        tok_Header token ''kid'' = Some (JString ''test123'')"
    by simp
  then show ?thesis using same fixedTime_facts by blast
qed

text \<open>
  At \<^verbatim>\<open>time.Unix(9223371974719178907, 0)\<close>, a well-formed \<^verbatim>\<open>Time\<close> 100 seconds before the
  last second the type can hold, \<^verbatim>\<open>Add\<close> stops at that last second: the token that is
  signed has \<^verbatim>\<open>iat\<close> 9223371974719178907 and \<^verbatim>\<open>exp\<close> 9223371974719179007, which is 100
  seconds later, not 300.  A signer that expects the expiry 300 seconds after the issue is
  not given it.
\<close>

theorem GenerateTokenWithTime_saturates_counterexample:
  "valid_Time lastMinutes
   \<and> GenerateTokenWithTime (expecting_sign 9223371974719178907 9223371974719179007) testAPIKey lastMinutes
       = Inr ''header.claims.signature''
   \<and> GenerateTokenWithTime (expecting_sign 9223371974719178907 9223371974719179207) testAPIKey lastMinutes
       = Inl (External (Foreign ''unexpected claims''))"
  by code_simp

section \<open>Properties of the transport\<close>

lemma GenerateToken_calls: "calls (snd (GenerateToken E key w)) = calls w"
  unfolding GenerateToken_def time_Now_def
  by (simp add: Let_def split: sum.split prod.split)

lemma request_calls: "calls (snd (request E m c method path body w)) = calls w"
proof -
  obtain t w1 where g: "GenerateToken E (apiKey c) w = (t, w1)"
    by (cases "GenerateToken E (apiKey c) w")
  with GenerateToken_calls[of E "apiKey c" w] have "calls w1 = calls w" by simp
  with g show ?thesis
    unfolding request_def httpClient_Do_def
    by (simp add: Let_def split: sum.split option.split)
qed

lemma do_calls:
  "calls (snd (do E J c method path body result w)) = calls w @ [(method, path)]"
proof -
  obtain r w1 where q: "request E (Marshal J) c method path body w = (r, w1)"
    by (cases "request E (Marshal J) c method path body w")
  with request_calls[of E "Marshal J" c "method" path body w] have "calls w1 = calls w" by simp
  with q show ?thesis
    unfolding do_def
    by (simp add: Let_def split: sum.split option.split prod.split)
qed

lemma do_ref_calls:
  "calls (snd (do_ref E J c method path body resp w)) = calls w @ [(method, path)]"
  using do_calls[of E J c "method" path body "Some resp" w]
  unfolding do_ref_def by (auto split: prod.split)

lemma do_result_Some:
  "\<exists>r'. snd (fst (do E J c method path body (Some r) w)) = Some r'"
  unfolding do_def
  by (simp add: Let_def split: sum.split option.split prod.split)

lemma GenerateToken_sent: "sent (snd (GenerateToken E key w)) = sent w"
  unfolding GenerateToken_def time_Now_def
  by (simp add: Let_def split: sum.split prod.split)

lemma request_sent:
  "length (sent (snd (request E m c verb path body w))) \<le> Suc (length (sent w))"
proof -
  obtain t w1 where g: "GenerateToken E (apiKey c) w = (t, w1)"
    by (cases "GenerateToken E (apiKey c) w")
  with GenerateToken_sent[of E "apiKey c" w] have "sent w1 = sent w" by simp
  with g show ?thesis
    unfolding request_def httpClient_Do_def
    by (simp add: Let_def split: sum.split option.split)
qed

lemma do_ref_sent:
  "length (sent (snd (do_ref E J c verb path body resp w))) \<le> Suc (length (sent w))"
proof -
  obtain r w1 where q: "request E (Marshal J) c verb path body w = (r, w1)"
    by (cases "request E (Marshal J) c verb path body w")
  with request_sent[of E "Marshal J" c verb path body w]
  have "length (sent w1) \<le> Suc (length (sent w))" by simp
  with q show ?thesis
    unfolding do_ref_def do_def
    by (simp add: Let_def split: sum.split option.split prod.split)
qed

lemma do_after_request:
  assumes "fst (request E (Marshal J) c method path body w) = Inr resp"
    and "Body resp = Inr respBody"
  shows "fst (do E J c method path body result w) =
     (if StatusCode resp \<ge> 400 then
        (case UnmarshalErrorResponse E respBody \<lparr>Errors = []\<rparr> of
           (None, errResp) \<Rightarrow>
             if length (Errors errResp) > 0 then
               (Some (ErrAPI (StatusCode resp)
                  (if Context (Errors errResp ! 0) \<noteq> []
                   then Message (Errors errResp ! 0) @ '': '' @ Context (Errors errResp ! 0)
                   else Message (Errors errResp ! 0))), result)
             else (Some (ErrAPI (StatusCode resp) respBody), result)
         | (Some _, errResp) \<Rightarrow> (Some (ErrAPI (StatusCode resp) respBody), result))
      else
        (case result of
           Some r \<Rightarrow> (map_option External (fst (Unmarshal J respBody r)), Some (snd (Unmarshal J respBody r)))
         | None \<Rightarrow> (None, None)))"
proof -
  obtain w1 where "request E (Marshal J) c method path body w = (Inr resp, w1)"
    using assms(1) by (cases "request E (Marshal J) c method path body w") simp
  with assms(2) show ?thesis
    unfolding do_def
    by (simp add: Let_def split: option.split prod.split)
qed

text \<open>
  C2 (as amended).  Let \<open>request\<close> have returned a response whose body was read as
  \<open>respBody\<close>.  With a status below 400 and no result pointer, \<open>do\<close> succeeds; with a
  status below 400 and a result pointer, the body is decoded into the result and the outcome
  of \<open>do\<close> is the outcome of the decoding: success when it succeeds, its error otherwise.
  With a status of 400 or more, \<open>do\<close> fails with an API error that carries the status
  code: when the body decodes as an error envelope with a first entry, the message is that
  entry's message, followed by \<^verbatim>\<open>: \<close> and its context exactly when the context is not
  empty; when the decoding fails or the list of errors is empty, the message is the raw
  body.  In the failing cases the result is left as it was.
\<close>

theorem do_classifies:
  assumes "fst (request E (Marshal J) c method path body w) = Inr resp"
    and "Body resp = Inr respBody"
  shows
    "(StatusCode resp < 400 \<and> result = None \<longrightarrow>
        fst (do E J c method path body result w) = (None, None))
     \<and> (\<forall>r. StatusCode resp < 400 \<and> result = Some r \<longrightarrow>
        fst (do E J c method path body result w) =
          (map_option External (fst (Unmarshal J respBody r)), Some (snd (Unmarshal J respBody r))))
     \<and> (\<forall>errResp e0 rest. StatusCode resp \<ge> 400 \<and>
          UnmarshalErrorResponse E respBody \<lparr>Errors = []\<rparr> = (None, errResp) \<and>
          Errors errResp = e0 # rest \<longrightarrow>
        fst (do E J c method path body result w) =
          (Some (ErrAPI (StatusCode resp)
             (if Context e0 \<noteq> [] then Message e0 @ '': '' @ Context e0 else Message e0)), result))
     \<and> (\<forall>derr errResp. StatusCode resp \<ge> 400 \<and>
          UnmarshalErrorResponse E respBody \<lparr>Errors = []\<rparr> = (derr, errResp) \<and>
          (derr \<noteq> None \<or> Errors errResp = []) \<longrightarrow>
        fst (do E J c method path body result w) = (Some (ErrAPI (StatusCode resp) respBody), result))"
  unfolding do_after_request[OF assms]
  by (auto split: option.split)

lemma GenerateToken_test:
  "GenerateToken (test_env server) testAPIKey w =
     (Inr ''header.claims.signature'', w\<lparr>clock_reads := Suc (clock_reads w)\<rparr>)"
  unfolding GenerateToken_def ParseAPIKey_testAPIKey time_Now_def
  by (simp add: Let_def test_env_def test_sign_def external_def)

lemma apiKey_test_client: "apiKey test_client = testAPIKey"
  by (simp add: test_client_def NewClient_def)

lemma request_test:
  "fst (request (test_env server) m test_client method path None w) =
     external (server (sent w)
       \<lparr>req_Method = method, req_URL = baseURL test_client @ path,
        req_Header = [''Authorization'' \<mapsto> ''Ghost header.claims.signature''],
        req_Body = None\<rparr>)"
  unfolding request_def apiKey_test_client GenerateToken_test
  by (simp add: Let_def NewRequest_def Header_Set_def httpClient_Do_def test_env_def)

lemma request_fixed_server:
  "fst (request (test_env (fixed_server s b)) m test_client method path None w) =
     Inr \<lparr>StatusCode = s, Body = Inr b\<rparr>"
  unfolding request_test by (simp add: fixed_server_def external_def)

theorem do_classifies_witness:
  \<open>fst (do (test_env (fixed_server 422
             ''{"errors":[{"message":"Validation failed","context":"Title is required"}]}''))
          (table_codec post_bodies :: (unit, string PostsResponse) codec) test_client
          ''GET'' ''/posts/?formats=html'' None (Some \<lparr>Posts = [], posts_Meta = None\<rparr>) world0)
     = (Some (ErrAPI 422 ''Validation failed: Title is required''),
        Some \<lparr>Posts = [], posts_Meta = None\<rparr>)
   \<and> fst (do (test_env (fixed_server 404 ''{"errors":[{"message":"Not found"}]}''))
          (table_codec post_bodies :: (unit, string PostsResponse) codec) test_client
          ''GET'' ''/posts/?formats=html'' None (Some \<lparr>Posts = [], posts_Meta = None\<rparr>) world0)
     = (Some (ErrAPI 404 ''Not found''), Some \<lparr>Posts = [], posts_Meta = None\<rparr>)
   \<and> fst (do (test_env (fixed_server 500 ''Internal Server Error''))
          (table_codec post_bodies :: (unit, string PostsResponse) codec) test_client
          ''GET'' ''/posts/?formats=html'' None (Some \<lparr>Posts = [], posts_Meta = None\<rparr>) world0)
     = (Some (ErrAPI 500 ''Internal Server Error''), Some \<lparr>Posts = [], posts_Meta = None\<rparr>)
   \<and> fst (do (test_env (fixed_server 400 ''{"errors":[]}''))
          (table_codec post_bodies :: (unit, string PostsResponse) codec) test_client
          ''GET'' ''/posts/?formats=html'' None (Some \<lparr>Posts = [], posts_Meta = None\<rparr>) world0)
     = (Some (ErrAPI 400 ''{"errors":[]}''), Some \<lparr>Posts = [], posts_Meta = None\<rparr>)
   \<and> fst (do (test_env (fixed_server 200 ''{"posts":[{"id":"123"}]}''))
          (table_codec post_bodies :: (unit, string PostsResponse) codec) test_client
          ''GET'' ''/posts/?formats=html'' None (Some \<lparr>Posts = [], posts_Meta = None\<rparr>) world0)
     = (None, Some \<lparr>Posts = [''123''], posts_Meta = None\<rparr>)
   \<and> fst (do (test_env (fixed_server 204 []))
          (table_codec post_bodies :: (unit, string PostsResponse) codec) test_client
          ''DELETE'' ''/posts/123/'' None None world0)
     = (None, None)\<close>
proof -
  let ?J = "table_codec post_bodies :: (unit, string PostsResponse) codec"
  let ?zero = "\<lparr>Posts = [], posts_Meta = None\<rparr> :: string PostsResponse"
  let ?get = "''/posts/?formats=html''"
  let ?b1 = \<open>''{"errors":[{"message":"Validation failed","context":"Title is required"}]}''\<close>
  let ?b2 = \<open>''{"errors":[{"message":"Not found"}]}''\<close>
  let ?b3 = "''Internal Server Error''"
  let ?b4 = \<open>''{"errors":[]}''\<close>
  let ?b5 = \<open>''{"posts":[{"id":"123"}]}''\<close>
  have req: "fst (request (test_env (fixed_server s b)) (Marshal ?J) test_client verb path None world0)
        = Inr \<lparr>StatusCode = s, Body = Inr b\<rparr>" for s b verb path
    by (rule request_fixed_server)
  have body: "Body \<lparr>StatusCode = s, Body = Inr b\<rparr> = Inr b" for s :: int and b :: string
    by simp
  show ?thesis
    using
      do_classifies[OF req[of 422 ?b1 "''GET''" ?get] body, of "Some ?zero"]
      do_classifies[OF req[of 404 ?b2 "''GET''" ?get] body, of "Some ?zero"]
      do_classifies[OF req[of 500 ?b3 "''GET''" ?get] body, of "Some ?zero"]
      do_classifies[OF req[of 400 ?b4 "''GET''" ?get] body, of "Some ?zero"]
      do_classifies[OF req[of 200 ?b5 "''GET''" ?get] body, of "Some ?zero"]
      do_classifies[OF req[of 204 "[]" "''DELETE''" "''/posts/123/''"] body, of None]
    by (simp add: test_env_def table_codec_def table_unmarshal_def error_bodies_def post_bodies_def)
qed

text \<open>
  The claim as it was stated, that a status below 400 makes the call succeed, fails when a
  result is expected and the body does not decode: the server answers 200 with a page of
  HTML, and \<open>do\<close> returns the decoder's error.
\<close>

theorem do_undecodable_success_counterexample:
  \<open>StatusCode \<lparr>StatusCode = 200, Body = Inr ''<html>''\<rparr> < 400
   \<and> fst (request (test_env (fixed_server 200 ''<html>''))
          (Marshal (table_codec post_bodies :: (unit, string PostsResponse) codec)) test_client
          ''GET'' ''/posts/?formats=html'' None world0)
     = Inr \<lparr>StatusCode = 200, Body = Inr ''<html>''\<rparr>
   \<and> fst (fst (do (test_env (fixed_server 200 ''<html>''))
          (table_codec post_bodies :: (unit, string PostsResponse) codec) test_client
          ''GET'' ''/posts/?formats=html'' None (Some \<lparr>Posts = [], posts_Meta = None\<rparr>) world0))
     = Some (External (Foreign ''invalid character looking for beginning of value''))\<close>
proof -
  have body: "Body \<lparr>StatusCode = 200, Body = Inr ''<html>''\<rparr> = Inr ''<html>''" by simp
  show ?thesis
    by (simp add: do_after_request[OF request_fixed_server body] request_fixed_server
        table_codec_def table_unmarshal_def post_bodies_def)
qed

section \<open>Properties of the lookups\<close>

lemma GetPost_unfold:
  "GetPost E J c k w =
     (case do_ref E J c ''GET'' (''/posts/'' @ k @ ''/?formats=html'') None
             \<lparr>Posts = [], posts_Meta = None\<rparr> w of
        ((None, r1), w1) \<Rightarrow>
          (if Posts r1 = [] then Inl (NotFound ''post'' k) else Inr (Posts r1 ! 0), w1)
      | ((Some e1, r1), w1) \<Rightarrow>
          (case do_ref E J c ''GET'' (''/posts/slug/'' @ k @ ''/?formats=html'') None r1 w1 of
             ((None, r2), w2) \<Rightarrow>
               (if Posts r2 = [] then Inl (NotFound ''post'' k) else Inr (Posts r2 ! 0), w2)
           | ((Some e2, r2), w2) \<Rightarrow> (Inl e2, w2)))"
  unfolding GetPost_def
  by (simp add: Let_def split: prod.split option.split)

text \<open>
  What \<open>GetPost\<close> does in every environment.  It makes at most two calls of \<open>do\<close>, and
  sends at most two HTTP requests.  The first call is addressed by identifier; when it
  succeeds no second call is made.  The second, addressed by the slug path, is made exactly
  when the first fails, whatever the failure (\<open>e1\<close> is any error \<open>do\<close> returns: token,
  encoding, network, API or decoding); when it fails too, its error is the result.  After
  the call that succeeded, the result is read from the response variable: the not-found
  error that names the input when its collection is empty, its first record otherwise.
  Both calls decode into that one variable, \<open>r1\<close> being what the first call left in it.
\<close>

lemma GetPost_calls_and_results:
  "let p1 = ''/posts/'' @ k @ ''/?formats=html'';
       p2 = ''/posts/slug/'' @ k @ ''/?formats=html'';
       a1 = do_ref E J c ''GET'' p1 None \<lparr>Posts = [], posts_Meta = None\<rparr> w;
       e1 = fst (fst a1); r1 = snd (fst a1);
       a2 = do_ref E J c ''GET'' p2 None r1 (snd a1);
       e2 = fst (fst a2); r2 = snd (fst a2);
       res = GetPost E J c k w
   in length (calls (snd res)) \<le> length (calls w) + 2
      \<and> length (sent (snd res)) \<le> length (sent w) + 2
      \<and> (e1 = None \<longrightarrow> calls (snd res) = calls w @ [(''GET'', p1)])
      \<and> (e1 \<noteq> None \<longrightarrow> calls (snd res) = calls w @ [(''GET'', p1), (''GET'', p2)])
      \<and> (e1 = None \<and> Posts r1 \<noteq> [] \<longrightarrow> fst res = Inr (Posts r1 ! 0))
      \<and> (e1 \<noteq> None \<and> e2 = None \<and> Posts r2 \<noteq> [] \<longrightarrow> fst res = Inr (Posts r2 ! 0))
      \<and> (\<forall>err. e1 \<noteq> None \<and> e2 = Some err \<longrightarrow> fst res = Inl err)
      \<and> (e1 = None \<and> Posts r1 = [] \<longrightarrow> fst res = Inl (NotFound ''post'' k))
      \<and> (e1 \<noteq> None \<and> e2 = None \<and> Posts r2 = [] \<longrightarrow> fst res = Inl (NotFound ''post'' k))"
proof -
  define p1 where "p1 = ''/posts/'' @ k @ ''/?formats=html''"
  define p2 where "p2 = ''/posts/slug/'' @ k @ ''/?formats=html''"
  obtain e1 r1 w1 where a1: "do_ref E J c ''GET'' p1 None \<lparr>Posts = [], posts_Meta = None\<rparr> w = ((e1, r1), w1)"
    by (metis surj_pair)
  obtain e2 r2 w2 where a2: "do_ref E J c ''GET'' p2 None r1 w1 = ((e2, r2), w2)"
    by (metis surj_pair)
  have c1: "calls w1 = calls w @ [(''GET'', p1)]"
    using do_ref_calls[of E J c "''GET''" p1 None "\<lparr>Posts = [], posts_Meta = None\<rparr>" w] a1 by simp
  have c2: "calls w2 = calls w1 @ [(''GET'', p2)]"
    using do_ref_calls[of E J c "''GET''" p2 None r1 w1] a2 by simp
  have s1: "length (sent w1) \<le> Suc (length (sent w))"
    using do_ref_sent[of E J c "''GET''" p1 None "\<lparr>Posts = [], posts_Meta = None\<rparr>" w] a1 by simp
  have s2: "length (sent w2) \<le> Suc (length (sent w1))"
    using do_ref_sent[of E J c "''GET''" p2 None r1 w1] a2 by simp
  have G: "GetPost E J c k w =
     (case e1 of
        None \<Rightarrow> (if Posts r1 = [] then Inl (NotFound ''post'' k) else Inr (Posts r1 ! 0), w1)
      | Some _ \<Rightarrow>
          (case e2 of
             None \<Rightarrow> (if Posts r2 = [] then Inl (NotFound ''post'' k) else Inr (Posts r2 ! 0), w2)
           | Some e \<Rightarrow> (Inl e, w2)))"
    unfolding GetPost_unfold p1_def[symmetric] p2_def[symmetric] a1
    by (simp add: a2 split: option.split)
  show ?thesis
    unfolding Let_def p1_def[symmetric] p2_def[symmetric] a1 fst_conv snd_conv a2 G
    using c1 c2 s1 s2 by (cases e1; cases e2) simp_all
qed

lemma request_test_world:
  "request (test_env server) m test_client method path None w =
     (external (server (sent w)
        \<lparr>req_Method = method, req_URL = baseURL test_client @ path,
         req_Header = [''Authorization'' \<mapsto> ''Ghost header.claims.signature''],
         req_Body = None\<rparr>),
      w\<lparr>clock_reads := Suc (clock_reads w),
         sent := sent w @
           [\<lparr>req_Method = method, req_URL = baseURL test_client @ path,
             req_Header = [''Authorization'' \<mapsto> ''Ghost header.claims.signature''],
             req_Body = None\<rparr>]\<rparr>)"
  unfolding request_def apiKey_test_client GenerateToken_test
  by (simp add: Let_def NewRequest_def Header_Set_def httpClient_Do_def test_env_def)

lemma UnmarshalErrorResponse_test:
  "UnmarshalErrorResponse (test_env server) = table_unmarshal error_bodies"
  by (simp add: test_env_def)

lemma sent_world0: "sent world0 = []" and calls_world0: "calls world0 = []"
  by (simp_all add: world0_def)

lemma baseURL_test_client: "baseURL test_client = ''http://localhost/ghost/api/admin''"
  by (simp add: test_client_def NewClient_def TrimSuffix_def)

text \<open>
  The lookups of the package's tests: found by slug after a 404, found by identifier, not
  found, and a site that cannot be reached.
\<close>

lemma GetPost_examples:
  \<open>fst (GetPost (test_env (fallback_server ''{"posts":[{"id":"123"}]}''))
          (table_codec post_bodies :: (unit, string PostsResponse) codec) test_client ''my-post'' world0)
     = Inr ''123''
   \<and> calls (snd (GetPost (test_env (fallback_server ''{"posts":[{"id":"123"}]}''))
          (table_codec post_bodies :: (unit, string PostsResponse) codec) test_client ''my-post'' world0))
     = [(''GET'', ''/posts/my-post/?formats=html''), (''GET'', ''/posts/slug/my-post/?formats=html'')]
   \<and> fst (GetPost (test_env (fixed_server 200 ''{"posts":[{"id":"123"}]}''))
          (table_codec post_bodies :: (unit, string PostsResponse) codec) test_client ''123'' world0)
     = Inr ''123''
   \<and> calls (snd (GetPost (test_env (fixed_server 200 ''{"posts":[{"id":"123"}]}''))
          (table_codec post_bodies :: (unit, string PostsResponse) codec) test_client ''123'' world0))
     = [(''GET'', ''/posts/123/?formats=html'')]
   \<and> fst (GetPost (test_env (fixed_server 200 ''{"posts":[]}''))
          (table_codec post_bodies :: (unit, string PostsResponse) codec) test_client ''nonexistent'' world0)
     = Inl (NotFound ''post'' ''nonexistent'')
   \<and> fst (GetPost (test_env (fallback_server ''{"posts":[]}''))
          (table_codec post_bodies :: (unit, string PostsResponse) codec) test_client ''nonexistent'' world0)
     = Inl (NotFound ''post'' ''nonexistent'')
   \<and> fst (GetPost (test_env unreachable_server)
          (table_codec post_bodies :: (unit, string PostsResponse) codec) test_client ''123'' world0)
     = Inl (External (Foreign ''dial tcp: connection refused''))
   \<and> calls (snd (GetPost (test_env unreachable_server)
          (table_codec post_bodies :: (unit, string PostsResponse) codec) test_client ''123'' world0))
     = [(''GET'', ''/posts/123/?formats=html''), (''GET'', ''/posts/slug/123/?formats=html'')]\<close>
proof -
  let ?J = "table_codec post_bodies :: (unit, string PostsResponse) codec"
  note ev = Let_def do_ref_def do_def request_test_world UnmarshalErrorResponse_test
    sent_world0 calls_world0 fallback_server_def fixed_server_def unreachable_server_def external_def
    table_codec_def table_unmarshal_def error_bodies_def post_bodies_def
  show ?thesis
    using
      GetPost_calls_and_results[of "''my-post''" \<open>test_env (fallback_server ''{"posts":[{"id":"123"}]}'')\<close>
        ?J test_client world0]
      GetPost_calls_and_results[of "''123''" \<open>test_env (fixed_server 200 ''{"posts":[{"id":"123"}]}'')\<close>
        ?J test_client world0]
      GetPost_calls_and_results[of "''nonexistent''" \<open>test_env (fixed_server 200 ''{"posts":[]}'')\<close>
        ?J test_client world0]
      GetPost_calls_and_results[of "''nonexistent''" \<open>test_env (fallback_server ''{"posts":[]}'')\<close>
        ?J test_client world0]
      GetPost_calls_and_results[of "''123''" "test_env unreachable_server" ?J test_client world0]
    by (simp add: ev)
qed

text \<open>
  C1.  Both attempts of \<open>GetPost\<close> decode into one response variable, and the decoder
  stores what it has read before it reports an error.  A record stored by the failed attempt
  by identifier is therefore still in the variable after the attempt by slug.  Here the site
  answers the request by identifier with status 200, a post and a malformed \<^verbatim>\<open>meta\<close>, so
  that decoding fails after the post is stored, and the request by slug with status 200 and
  the empty object.  The first attempt fails; the second succeeds and returns an empty
  collection (on a fresh response variable it leaves the collection empty); two calls are
  made; and the result is the post of the failed attempt, where the not-found error that
  names \<^verbatim>\<open>my-post\<close> is due.
\<close>

theorem GetPost_returns_stale_record:
  \<open>fst (fst (do_ref (test_env (routed_server 200 stale_answers)) effect_codec test_client
            ''GET'' ''/posts/my-post/?formats=html'' None \<lparr>Posts = [], posts_Meta = None\<rparr> world0))
     = Some (External (Foreign
         ''json: cannot unmarshal number into Go struct field PostsResponse.meta of type libecto.Meta''))
   \<and> fst (do_ref (test_env (routed_server 200 stale_answers)) effect_codec test_client
            ''GET'' ''/posts/slug/my-post/?formats=html'' None \<lparr>Posts = [], posts_Meta = None\<rparr> world0)
     = (None, \<lparr>Posts = [], posts_Meta = None\<rparr>)
   \<and> calls (snd (GetPost (test_env (routed_server 200 stale_answers)) effect_codec test_client
            ''my-post'' world0))
     = [(''GET'', ''/posts/my-post/?formats=html''), (''GET'', ''/posts/slug/my-post/?formats=html'')]
   \<and> fst (GetPost (test_env (routed_server 200 stale_answers)) effect_codec test_client
            ''my-post'' world0)
     = Inr ''first''
   \<and> fst (GetPost (test_env (routed_server 200 stale_answers)) effect_codec test_client
            ''my-post'' world0)
     \<noteq> Inl (NotFound ''post'' ''my-post'')\<close>
  by (simp add: GetPost_def Let_def do_ref_def do_def request_test_world UnmarshalErrorResponse_test
      baseURL_test_client sent_world0 calls_world0 routed_server_def stale_answers_def external_def
      effect_codec_def effect_unmarshal_def post_decodings_def)

text \<open>
  The lookups of pages, tags and users have the shape of \<open>GetPost\<close>: one call by
  identifier, and a second call by slug when the first fails.
\<close>

lemma GetPage_calls:
  "calls (snd (GetPage E J c k w)) =
     (case fst (fst (do_ref E J c ''GET'' (''/pages/'' @ k @ ''/?formats=html'') None \<lparr>Pages_of = [], pages_Meta = None\<rparr> w)) of
        None \<Rightarrow> calls w @ [(''GET'', ''/pages/'' @ k @ ''/?formats=html'')]
      | Some e \<Rightarrow> calls w @ [(''GET'', ''/pages/'' @ k @ ''/?formats=html''),
                              (''GET'', ''/pages/slug/'' @ k @ ''/?formats=html'')])"
proof -
  define p1 where "p1 = ''/pages/'' @ k @ ''/?formats=html''"
  define p2 where "p2 = ''/pages/slug/'' @ k @ ''/?formats=html''"
  obtain e1 r1 w1 where a1: "do_ref E J c ''GET'' p1 None \<lparr>Pages_of = [], pages_Meta = None\<rparr> w = ((e1, r1), w1)"
    by (metis surj_pair)
  obtain e2 r2 w2 where a2: "do_ref E J c ''GET'' p2 None r1 w1 = ((e2, r2), w2)"
    by (metis surj_pair)
  have c1: "calls w1 = calls w @ [(''GET'', p1)]"
    using do_ref_calls[of E J c "''GET''" p1 None "\<lparr>Pages_of = [], pages_Meta = None\<rparr>" w] a1 by simp
  have c2: "calls w2 = calls w1 @ [(''GET'', p2)]"
    using do_ref_calls[of E J c "''GET''" p2 None r1 w1] a2 by simp
  show ?thesis
    unfolding GetPage_def Let_def p1_def[symmetric] p2_def[symmetric] a1
    using c1 c2 by (cases e1; cases e2) (simp_all add: a2)
qed

lemma GetTag_calls:
  "calls (snd (GetTag E J c k w)) =
     (case fst (fst (do_ref E J c ''GET'' (''/tags/'' @ k @ ''/'') None \<lparr>Tags = [], tags_Meta = None\<rparr> w)) of
        None \<Rightarrow> calls w @ [(''GET'', ''/tags/'' @ k @ ''/'')]
      | Some e \<Rightarrow> calls w @ [(''GET'', ''/tags/'' @ k @ ''/''),
                              (''GET'', ''/tags/slug/'' @ k @ ''/'')])"
proof -
  define p1 where "p1 = ''/tags/'' @ k @ ''/''"
  define p2 where "p2 = ''/tags/slug/'' @ k @ ''/''"
  obtain e1 r1 w1 where a1: "do_ref E J c ''GET'' p1 None \<lparr>Tags = [], tags_Meta = None\<rparr> w = ((e1, r1), w1)"
    by (metis surj_pair)
  obtain e2 r2 w2 where a2: "do_ref E J c ''GET'' p2 None r1 w1 = ((e2, r2), w2)"
    by (metis surj_pair)
  have c1: "calls w1 = calls w @ [(''GET'', p1)]"
    using do_ref_calls[of E J c "''GET''" p1 None "\<lparr>Tags = [], tags_Meta = None\<rparr>" w] a1 by simp
  have c2: "calls w2 = calls w1 @ [(''GET'', p2)]"
    using do_ref_calls[of E J c "''GET''" p2 None r1 w1] a2 by simp
  show ?thesis
    unfolding GetTag_def Let_def p1_def[symmetric] p2_def[symmetric] a1
    using c1 c2 by (cases e1; cases e2) (simp_all add: a2)
qed

lemma GetUser_calls:
  "calls (snd (GetUser E J c k w)) =
     (case fst (fst (do_ref E J c ''GET'' (''/users/'' @ k @ ''/'') None \<lparr>Users = [], users_Meta = None\<rparr> w)) of
        None \<Rightarrow> calls w @ [(''GET'', ''/users/'' @ k @ ''/'')]
      | Some e \<Rightarrow> calls w @ [(''GET'', ''/users/'' @ k @ ''/''),
                              (''GET'', ''/users/slug/'' @ k @ ''/'')])"
proof -
  define p1 where "p1 = ''/users/'' @ k @ ''/''"
  define p2 where "p2 = ''/users/slug/'' @ k @ ''/''"
  obtain e1 r1 w1 where a1: "do_ref E J c ''GET'' p1 None \<lparr>Users = [], users_Meta = None\<rparr> w = ((e1, r1), w1)"
    by (metis surj_pair)
  obtain e2 r2 w2 where a2: "do_ref E J c ''GET'' p2 None r1 w1 = ((e2, r2), w2)"
    by (metis surj_pair)
  have c1: "calls w1 = calls w @ [(''GET'', p1)]"
    using do_ref_calls[of E J c "''GET''" p1 None "\<lparr>Users = [], users_Meta = None\<rparr>" w] a1 by simp
  have c2: "calls w2 = calls w1 @ [(''GET'', p2)]"
    using do_ref_calls[of E J c "''GET''" p2 None r1 w1] a2 by simp
  show ?thesis
    unfolding GetUser_def Let_def p1_def[symmetric] p2_def[symmetric] a1
    using c1 c2 by (cases e1; cases e2) (simp_all add: a2)
qed

section \<open>Properties of the writes\<close>

lemma GenerateToken_error_kinds:
  "fst (GenerateToken E key w) = Inl err \<Longrightarrow>
     (\<exists>e. err = External e) \<or> ParseAPIKey key = Inl err"
  unfolding GenerateToken_def time_Now_def external_def
  by (auto simp: Let_def split: sum.splits prod.splits)

lemma request_error_kinds:
  "fst (request E m c method path body w) = Inl err \<Longrightarrow>
     (\<exists>e. err = GeneratingToken e) \<or> (\<exists>e. err = External e)"
proof -
  obtain t w1 where g: "GenerateToken E (apiKey c) w = (t, w1)"
    by (cases "GenerateToken E (apiKey c) w")
  assume "fst (request E m c method path body w) = Inl err"
  with g show ?thesis
    unfolding request_def httpClient_Do_def NewRequest_def external_def
    by (auto simp: Let_def split: sum.splits option.splits)
qed

lemma do_error_kinds:
  assumes "fst (fst (do E J c method path body result w)) = Some err"
  shows "(\<exists>e. err = GeneratingToken e) \<or> (\<exists>e. err = External e) \<or> (\<exists>s m. err = ErrAPI s m)"
proof -
  obtain r w1 where q: "request E (Marshal J) c method path body w = (r, w1)"
    by (cases "request E (Marshal J) c method path body w")
  show ?thesis
  proof (cases r)
    case (Inl e)
    with q assms have "err = e" unfolding do_def by (simp add: Let_def)
    with Inl q request_error_kinds[of E "Marshal J" c "method" path body w e] show ?thesis by auto
  next
    case (Inr resp)
    with q assms show ?thesis
      unfolding do_def
      by (auto simp: Let_def split: sum.splits option.splits prod.splits if_splits)
  qed
qed

lemma do_ref_error_kinds:
  assumes "fst (fst (do_ref E J c method path body resp w)) = Some err"
  shows "(\<exists>e. err = GeneratingToken e) \<or> (\<exists>e. err = External e) \<or> (\<exists>s m. err = ErrAPI s m)"
  using assms do_error_kinds[of E J c "method" path body "Some resp" w err]
  unfolding do_ref_def by (auto split: prod.splits)

lemma CreatePost_result:
  "(let a = do_ref E JP c ''POST'' ''/posts/?source=html&formats=html'' (Some [(''posts'', [post])])
             \<lparr>Posts = [], posts_Meta = None\<rparr> w;
       e = fst (fst a); r = snd (fst a);
       res = CreatePost E JP c post w
   in (e = None \<and> Posts r = [] \<longrightarrow> res = (Inl (NoneReturned ''post''), snd a))
      \<and> (e = None \<and> Posts r \<noteq> [] \<longrightarrow> res = (Inr (hd (Posts r)), snd a))
      \<and> (\<forall>err. e = Some err \<longrightarrow> res = (Inl err, snd a) \<and> err \<noteq> NoneReturned ''post''))"
proof -
  define p where "p = ''/posts/?source=html&formats=html''"
  obtain e r w1 where a: "do_ref E JP c ''POST'' p
      (Some [(''posts'', [post])]) \<lparr>Posts = [], posts_Meta = None\<rparr> w = ((e, r), w1)"
    by (metis surj_pair)
  show ?thesis
    using do_ref_error_kinds[of E JP c "''POST''" p
        "Some [(''posts'', [post])]" "\<lparr>Posts = [], posts_Meta = None\<rparr>" w]
    unfolding Let_def CreatePost_def p_def[symmetric] a
    by (cases e) (auto simp: hd_conv_nth)
qed

lemma UpdatePost_result:
  "(let a = do_ref E JP c ''PUT'' (''/posts/'' @ ident @ ''/?source=html&formats=html'') (Some [(''posts'', [post])])
             \<lparr>Posts = [], posts_Meta = None\<rparr> w;
       e = fst (fst a); r = snd (fst a);
       res = UpdatePost E JP c ident post w
   in (e = None \<and> Posts r = [] \<longrightarrow> res = (Inl (NoneReturned ''post''), snd a))
      \<and> (e = None \<and> Posts r \<noteq> [] \<longrightarrow> res = (Inr (hd (Posts r)), snd a))
      \<and> (\<forall>err. e = Some err \<longrightarrow> res = (Inl err, snd a) \<and> err \<noteq> NoneReturned ''post''))"
proof -
  define p where "p = (''/posts/'' @ ident @ ''/?source=html&formats=html'')"
  obtain e r w1 where a: "do_ref E JP c ''PUT'' p
      (Some [(''posts'', [post])]) \<lparr>Posts = [], posts_Meta = None\<rparr> w = ((e, r), w1)"
    by (metis surj_pair)
  show ?thesis
    using do_ref_error_kinds[of E JP c "''PUT''" p
        "Some [(''posts'', [post])]" "\<lparr>Posts = [], posts_Meta = None\<rparr>" w]
    unfolding Let_def UpdatePost_def p_def[symmetric] a
    by (cases e) (auto simp: hd_conv_nth)
qed

lemma CreatePage_result:
  "(let a = do_ref E JG c ''POST'' ''/pages/?formats=html'' (Some [(''pages'', [page])])
             \<lparr>Pages_of = [], pages_Meta = None\<rparr> w;
       e = fst (fst a); r = snd (fst a);
       res = CreatePage E JG c page w
   in (e = None \<and> Pages_of r = [] \<longrightarrow> res = (Inl (NoneReturned ''page''), snd a))
      \<and> (e = None \<and> Pages_of r \<noteq> [] \<longrightarrow> res = (Inr (hd (Pages_of r)), snd a))
      \<and> (\<forall>err. e = Some err \<longrightarrow> res = (Inl err, snd a) \<and> err \<noteq> NoneReturned ''page''))"
proof -
  define p where "p = ''/pages/?formats=html''"
  obtain e r w1 where a: "do_ref E JG c ''POST'' p
      (Some [(''pages'', [page])]) \<lparr>Pages_of = [], pages_Meta = None\<rparr> w = ((e, r), w1)"
    by (metis surj_pair)
  show ?thesis
    using do_ref_error_kinds[of E JG c "''POST''" p
        "Some [(''pages'', [page])]" "\<lparr>Pages_of = [], pages_Meta = None\<rparr>" w]
    unfolding Let_def CreatePage_def p_def[symmetric] a
    by (cases e) (auto simp: hd_conv_nth)
qed

lemma UpdatePage_result:
  "(let a = do_ref E JG c ''PUT'' (''/pages/'' @ ident @ ''/?formats=html'') (Some [(''pages'', [page])])
             \<lparr>Pages_of = [], pages_Meta = None\<rparr> w;
       e = fst (fst a); r = snd (fst a);
       res = UpdatePage E JG c ident page w
   in (e = None \<and> Pages_of r = [] \<longrightarrow> res = (Inl (NoneReturned ''page''), snd a))
      \<and> (e = None \<and> Pages_of r \<noteq> [] \<longrightarrow> res = (Inr (hd (Pages_of r)), snd a))
      \<and> (\<forall>err. e = Some err \<longrightarrow> res = (Inl err, snd a) \<and> err \<noteq> NoneReturned ''page''))"
proof -
  define p where "p = (''/pages/'' @ ident @ ''/?formats=html'')"
  obtain e r w1 where a: "do_ref E JG c ''PUT'' p
      (Some [(''pages'', [page])]) \<lparr>Pages_of = [], pages_Meta = None\<rparr> w = ((e, r), w1)"
    by (metis surj_pair)
  show ?thesis
    using do_ref_error_kinds[of E JG c "''PUT''" p
        "Some [(''pages'', [page])]" "\<lparr>Pages_of = [], pages_Meta = None\<rparr>" w]
    unfolding Let_def UpdatePage_def p_def[symmetric] a
    by (cases e) (auto simp: hd_conv_nth)
qed

lemma CreateTag_result:
  "(let a = do_ref E JT c ''POST'' ''/tags/'' (Some [(''tags'', [tag])])
             \<lparr>Tags = [], tags_Meta = None\<rparr> w;
       e = fst (fst a); r = snd (fst a);
       res = CreateTag E JT c tag w
   in (e = None \<and> Tags r = [] \<longrightarrow> res = (Inl (NoneReturned ''tag''), snd a))
      \<and> (e = None \<and> Tags r \<noteq> [] \<longrightarrow> res = (Inr (hd (Tags r)), snd a))
      \<and> (\<forall>err. e = Some err \<longrightarrow> res = (Inl err, snd a) \<and> err \<noteq> NoneReturned ''tag''))"
proof -
  define p where "p = ''/tags/''"
  obtain e r w1 where a: "do_ref E JT c ''POST'' p
      (Some [(''tags'', [tag])]) \<lparr>Tags = [], tags_Meta = None\<rparr> w = ((e, r), w1)"
    by (metis surj_pair)
  show ?thesis
    using do_ref_error_kinds[of E JT c "''POST''" p
        "Some [(''tags'', [tag])]" "\<lparr>Tags = [], tags_Meta = None\<rparr>" w]
    unfolding Let_def CreateTag_def p_def[symmetric] a
    by (cases e) (auto simp: hd_conv_nth)
qed

lemma UpdateTag_result:
  "(let a = do_ref E JT c ''PUT'' (''/tags/'' @ ident @ ''/'') (Some [(''tags'', [tag])])
             \<lparr>Tags = [], tags_Meta = None\<rparr> w;
       e = fst (fst a); r = snd (fst a);
       res = UpdateTag E JT c ident tag w
   in (e = None \<and> Tags r = [] \<longrightarrow> res = (Inl (NoneReturned ''tag''), snd a))
      \<and> (e = None \<and> Tags r \<noteq> [] \<longrightarrow> res = (Inr (hd (Tags r)), snd a))
      \<and> (\<forall>err. e = Some err \<longrightarrow> res = (Inl err, snd a) \<and> err \<noteq> NoneReturned ''tag''))"
proof -
  define p where "p = (''/tags/'' @ ident @ ''/'')"
  obtain e r w1 where a: "do_ref E JT c ''PUT'' p
      (Some [(''tags'', [tag])]) \<lparr>Tags = [], tags_Meta = None\<rparr> w = ((e, r), w1)"
    by (metis surj_pair)
  show ?thesis
    using do_ref_error_kinds[of E JT c "''PUT''" p
        "Some [(''tags'', [tag])]" "\<lparr>Tags = [], tags_Meta = None\<rparr>" w]
    unfolding Let_def UpdateTag_def p_def[symmetric] a
    by (cases e) (auto simp: hd_conv_nth)
qed

lemma CreateWebhook_result:
  "(let a = do_ref E JW c ''POST'' ''/webhooks/'' (Some [(''webhooks'', [webhook])])
             \<lparr>Webhooks = []\<rparr> w;
       e = fst (fst a); r = snd (fst a);
       res = CreateWebhook E JW c webhook w
   in (e = None \<and> Webhooks r = [] \<longrightarrow> res = (Inl (NoneReturned ''webhook''), snd a))
      \<and> (e = None \<and> Webhooks r \<noteq> [] \<longrightarrow> res = (Inr (hd (Webhooks r)), snd a))
      \<and> (\<forall>err. e = Some err \<longrightarrow> res = (Inl err, snd a) \<and> err \<noteq> NoneReturned ''webhook''))"
proof -
  define p where "p = ''/webhooks/''"
  obtain e r w1 where a: "do_ref E JW c ''POST'' p
      (Some [(''webhooks'', [webhook])]) \<lparr>Webhooks = []\<rparr> w = ((e, r), w1)"
    by (metis surj_pair)
  show ?thesis
    using do_ref_error_kinds[of E JW c "''POST''" p
        "Some [(''webhooks'', [webhook])]" "\<lparr>Webhooks = []\<rparr>" w]
    unfolding Let_def CreateWebhook_def p_def[symmetric] a
    by (cases e) (auto simp: hd_conv_nth)
qed

text \<open>
  C5.  Every create and every update (\<open>CreatePost\<close>, \<open>UpdatePost\<close>, \<open>CreatePage\<close>,
  \<open>UpdatePage\<close>, \<open>CreateTag\<close>, \<open>UpdateTag\<close>, \<open>CreateWebhook\<close>) makes one call of
  \<open>do\<close> with the record wrapped under the plural key.  When that call succeeds and leaves
  the collection empty, the operation fails with the error \<^verbatim>\<open>no <kind> returned\<close>; when
  the collection is not empty, the operation returns its first element; when the call fails,
  its error is returned, and that error is never the \<^verbatim>\<open>no <kind> returned\<close> error.
\<close>

theorem create_update_unwrap:
  "(let a = do_ref E JP c ''POST'' ''/posts/?source=html&formats=html'' (Some [(''posts'', [post])])
             \<lparr>Posts = [], posts_Meta = None\<rparr> w;
       e = fst (fst a); r = snd (fst a);
       res = CreatePost E JP c post w
   in (e = None \<and> Posts r = [] \<longrightarrow> res = (Inl (NoneReturned ''post''), snd a))
      \<and> (e = None \<and> Posts r \<noteq> [] \<longrightarrow> res = (Inr (hd (Posts r)), snd a))
      \<and> (\<forall>err. e = Some err \<longrightarrow> res = (Inl err, snd a) \<and> err \<noteq> NoneReturned ''post''))
   \<and> (let a = do_ref E JP c ''PUT'' (''/posts/'' @ ident @ ''/?source=html&formats=html'') (Some [(''posts'', [post])])
             \<lparr>Posts = [], posts_Meta = None\<rparr> w;
       e = fst (fst a); r = snd (fst a);
       res = UpdatePost E JP c ident post w
   in (e = None \<and> Posts r = [] \<longrightarrow> res = (Inl (NoneReturned ''post''), snd a))
      \<and> (e = None \<and> Posts r \<noteq> [] \<longrightarrow> res = (Inr (hd (Posts r)), snd a))
      \<and> (\<forall>err. e = Some err \<longrightarrow> res = (Inl err, snd a) \<and> err \<noteq> NoneReturned ''post''))
   \<and> (let a = do_ref E JG c ''POST'' ''/pages/?formats=html'' (Some [(''pages'', [page])])
             \<lparr>Pages_of = [], pages_Meta = None\<rparr> w;
       e = fst (fst a); r = snd (fst a);
       res = CreatePage E JG c page w
   in (e = None \<and> Pages_of r = [] \<longrightarrow> res = (Inl (NoneReturned ''page''), snd a))
      \<and> (e = None \<and> Pages_of r \<noteq> [] \<longrightarrow> res = (Inr (hd (Pages_of r)), snd a))
      \<and> (\<forall>err. e = Some err \<longrightarrow> res = (Inl err, snd a) \<and> err \<noteq> NoneReturned ''page''))
   \<and> (let a = do_ref E JG c ''PUT'' (''/pages/'' @ ident @ ''/?formats=html'') (Some [(''pages'', [page])])
             \<lparr>Pages_of = [], pages_Meta = None\<rparr> w;
       e = fst (fst a); r = snd (fst a);
       res = UpdatePage E JG c ident page w
   in (e = None \<and> Pages_of r = [] \<longrightarrow> res = (Inl (NoneReturned ''page''), snd a))
      \<and> (e = None \<and> Pages_of r \<noteq> [] \<longrightarrow> res = (Inr (hd (Pages_of r)), snd a))
      \<and> (\<forall>err. e = Some err \<longrightarrow> res = (Inl err, snd a) \<and> err \<noteq> NoneReturned ''page''))
   \<and> (let a = do_ref E JT c ''POST'' ''/tags/'' (Some [(''tags'', [tag])])
             \<lparr>Tags = [], tags_Meta = None\<rparr> w;
       e = fst (fst a); r = snd (fst a);
       res = CreateTag E JT c tag w
   in (e = None \<and> Tags r = [] \<longrightarrow> res = (Inl (NoneReturned ''tag''), snd a))
      \<and> (e = None \<and> Tags r \<noteq> [] \<longrightarrow> res = (Inr (hd (Tags r)), snd a))
      \<and> (\<forall>err. e = Some err \<longrightarrow> res = (Inl err, snd a) \<and> err \<noteq> NoneReturned ''tag''))
   \<and> (let a = do_ref E JT c ''PUT'' (''/tags/'' @ ident @ ''/'') (Some [(''tags'', [tag])])
             \<lparr>Tags = [], tags_Meta = None\<rparr> w;
       e = fst (fst a); r = snd (fst a);
       res = UpdateTag E JT c ident tag w
   in (e = None \<and> Tags r = [] \<longrightarrow> res = (Inl (NoneReturned ''tag''), snd a))
      \<and> (e = None \<and> Tags r \<noteq> [] \<longrightarrow> res = (Inr (hd (Tags r)), snd a))
      \<and> (\<forall>err. e = Some err \<longrightarrow> res = (Inl err, snd a) \<and> err \<noteq> NoneReturned ''tag''))
   \<and> (let a = do_ref E JW c ''POST'' ''/webhooks/'' (Some [(''webhooks'', [webhook])])
             \<lparr>Webhooks = []\<rparr> w;
       e = fst (fst a); r = snd (fst a);
       res = CreateWebhook E JW c webhook w
   in (e = None \<and> Webhooks r = [] \<longrightarrow> res = (Inl (NoneReturned ''webhook''), snd a))
      \<and> (e = None \<and> Webhooks r \<noteq> [] \<longrightarrow> res = (Inr (hd (Webhooks r)), snd a))
      \<and> (\<forall>err. e = Some err \<longrightarrow> res = (Inl err, snd a) \<and> err \<noteq> NoneReturned ''webhook''))"
proof -
  note posts = CreatePost_result[of E JP c post w] UpdatePost_result[of E JP c ident post w]
  note pages = CreatePage_result[of E JG c page w] UpdatePage_result[of E JG c ident page w]
  note tags = CreateTag_result[of E JT c tag w] UpdateTag_result[of E JT c ident tag w]
  note webhooks = CreateWebhook_result[of E JW c webhook w]
  show ?thesis by (intro conjI posts pages tags webhooks)
qed

lemma request_test_body:
  "request (test_env server) (Marshal (table_codec t)) test_client method path (Some b) w =
     (external (server (sent w)
        \<lparr>req_Method = method, req_URL = baseURL test_client @ path,
         req_Header = [''Authorization'' \<mapsto> ''Ghost header.claims.signature'',
                       ''Content-Type'' \<mapsto> ''application/json''],
         req_Body = Some (JSONBody ''{}'')\<rparr>),
      w\<lparr>clock_reads := Suc (clock_reads w),
         sent := sent w @
           [\<lparr>req_Method = method, req_URL = baseURL test_client @ path,
             req_Header = [''Authorization'' \<mapsto> ''Ghost header.claims.signature'',
                           ''Content-Type'' \<mapsto> ''application/json''],
             req_Body = Some (JSONBody ''{}'')\<rparr>]\<rparr>)"
  unfolding request_def apiKey_test_client GenerateToken_test
  by (simp add: Let_def NewRequest_def Header_Set_def httpClient_Do_def test_env_def table_codec_def)

lemma Unmarshal_table: "Unmarshal (table_codec t) = table_unmarshal t"
  by (simp add: table_codec_def)

theorem create_update_unwrap_witness:
  \<open>fst (CreatePost (test_env (routed_server 201 empty_answers)) (table_codec post_bodies)
          test_client ''Test'' world0) = Inl (NoneReturned ''post'')
   \<and> fst (UpdatePost (test_env (routed_server 201 empty_answers)) (table_codec post_bodies)
          test_client ''123'' ''Test'' world0) = Inl (NoneReturned ''post'')
   \<and> fst (CreatePage (test_env (routed_server 201 empty_answers)) (table_codec page_bodies)
          test_client ''Test'' world0) = Inl (NoneReturned ''page'')
   \<and> fst (UpdatePage (test_env (routed_server 201 empty_answers)) (table_codec page_bodies)
          test_client ''123'' ''Test'' world0) = Inl (NoneReturned ''page'')
   \<and> fst (CreateTag (test_env (routed_server 201 empty_answers)) (table_codec tag_bodies)
          test_client ''Test'' world0) = Inl (NoneReturned ''tag'')
   \<and> fst (UpdateTag (test_env (routed_server 201 empty_answers)) (table_codec tag_bodies)
          test_client ''123'' ''Test'' world0) = Inl (NoneReturned ''tag'')
   \<and> fst (CreateWebhook (test_env (routed_server 201 empty_answers)) (table_codec webhook_bodies)
          test_client ''Test'' world0) = Inl (NoneReturned ''webhook'')
   \<and> fst (CreatePost (test_env (routed_server 201 record_answers)) (table_codec post_bodies)
          test_client ''Test'' world0) = Inr ''123''
   \<and> fst (UpdatePost (test_env (routed_server 201 record_answers)) (table_codec post_bodies)
          test_client ''123'' ''Test'' world0) = Inr ''123''
   \<and> fst (CreatePage (test_env (routed_server 201 record_answers)) (table_codec page_bodies)
          test_client ''Test'' world0) = Inr ''123''
   \<and> fst (UpdatePage (test_env (routed_server 201 record_answers)) (table_codec page_bodies)
          test_client ''123'' ''Test'' world0) = Inr ''123''
   \<and> fst (CreateTag (test_env (routed_server 201 record_answers)) (table_codec tag_bodies)
          test_client ''Test'' world0) = Inr ''123''
   \<and> fst (UpdateTag (test_env (routed_server 201 record_answers)) (table_codec tag_bodies)
          test_client ''123'' ''Test'' world0) = Inr ''123''
   \<and> fst (CreateWebhook (test_env (routed_server 201 record_answers)) (table_codec webhook_bodies)
          test_client ''Test'' world0) = Inr ''123''
   \<and> fst (CreatePost (test_env (fixed_server 422
             ''{"errors":[{"message":"Validation failed","context":"Title is required"}]}''))
          (table_codec post_bodies) test_client ''Test'' world0)
       = Inl (ErrAPI 422 ''Validation failed: Title is required'')
   \<and> fst (CreateWebhook (test_env (fixed_server 422
             ''{"errors":[{"message":"Validation failed","context":"Title is required"}]}''))
          (table_codec webhook_bodies) test_client ''Test'' world0)
       = Inl (ErrAPI 422 ''Validation failed: Title is required'')\<close>
proof -
  note ev = Let_def do_ref_def do_def request_test_body UnmarshalErrorResponse_test
    baseURL_test_client routed_server_def empty_answers_def record_answers_def write_urls_def
    fixed_server_def external_def table_unmarshal_def error_bodies_def
    post_bodies_def page_bodies_def tag_bodies_def webhook_bodies_def
    Unmarshal_table
  note inst = create_update_unwrap[where c = test_client and w = world0 and ident = "''123''"
      and post = "''Test''" and page = "''Test''" and tag = "''Test''" and webhook = "''Test''"
      and JP = "table_codec post_bodies" and JG = "table_codec page_bodies"
      and JT = "table_codec tag_bodies" and JW = "table_codec webhook_bodies"]
  show ?thesis
    using
      inst[where E = "test_env (routed_server 201 empty_answers)"]
      inst[where E = "test_env (routed_server 201 record_answers)"]
      inst[where E = \<open>test_env (fixed_server 422
             ''{"errors":[{"message":"Validation failed","context":"Title is required"}]}'')\<close>]
    by (simp add: ev)
qed

section \<open>The newsletter lookup\<close>

text \<open>
  C7 (as amended).  \<open>GetNewsletter\<close> makes exactly one call of \<open>do\<close>, addressed by
  identifier.  When that call fails its error is returned, and no request by slug follows;
  when it succeeds with an empty collection the result is the not-found error that names
  the identifier; otherwise the result is the first record.
\<close>

theorem GetNewsletter_single_call:
  "let p = ''/newsletters/'' @ ident @ ''/'';
       a = do_ref E J c ''GET'' p None \<lparr>Newsletters = []\<rparr> w;
       e = fst (fst a); r = snd (fst a);
       res = GetNewsletter E J c ident w
   in calls (snd res) = calls w @ [(''GET'', p)]
      \<and> (\<forall>err. e = Some err \<longrightarrow> fst res = Inl err)
      \<and> (e = None \<and> Newsletters r = [] \<longrightarrow> fst res = Inl (NotFound ''newsletter'' ident))
      \<and> (e = None \<and> Newsletters r \<noteq> [] \<longrightarrow> fst res = Inr (hd (Newsletters r)))"
proof -
  define p where "p = ''/newsletters/'' @ ident @ ''/''"
  obtain e r w1 where a: "do_ref E J c ''GET'' p None \<lparr>Newsletters = []\<rparr> w = ((e, r), w1)"
    by (metis surj_pair)
  have c1: "calls w1 = calls w @ [(''GET'', p)]"
    using do_ref_calls[of E J c "''GET''" p None "\<lparr>Newsletters = []\<rparr>" w] a by simp
  show ?thesis
    unfolding Let_def GetNewsletter_def p_def[symmetric] a
    using c1 by (cases e) (auto simp: hd_conv_nth)
qed

theorem GetNewsletter_single_call_witness:
  \<open>calls (snd (GetNewsletter (test_env (fallback_server ''{"newsletters":[{"id":"123"}]}''))
          (table_codec newsletter_bodies :: (unit, string NewslettersResponse) codec)
          test_client ''weekly'' world0))
     = [(''GET'', ''/newsletters/weekly/'')]
   \<and> fst (GetNewsletter (test_env (fixed_server 200 ''{"newsletters":[{"id":"123"}]}''))
          (table_codec newsletter_bodies :: (unit, string NewslettersResponse) codec)
          test_client ''123'' world0)
     = Inr ''123''
   \<and> fst (GetNewsletter (test_env (fixed_server 200 ''{"newsletters":[]}''))
          (table_codec newsletter_bodies :: (unit, string NewslettersResponse) codec)
          test_client ''nonexistent'' world0)
     = Inl (NotFound ''newsletter'' ''nonexistent'')\<close>
proof -
  let ?J = "table_codec newsletter_bodies :: (unit, string NewslettersResponse) codec"
  note ev = Let_def do_ref_def do_def request_test_world UnmarshalErrorResponse_test
    sent_world0 calls_world0 fallback_server_def fixed_server_def external_def
    Unmarshal_table table_unmarshal_def error_bodies_def newsletter_bodies_def
  show ?thesis
    using
      GetNewsletter_single_call[of "''weekly''"
        \<open>test_env (fallback_server ''{"newsletters":[{"id":"123"}]}'')\<close> ?J test_client world0]
      GetNewsletter_single_call[of "''123''"
        \<open>test_env (fixed_server 200 ''{"newsletters":[{"id":"123"}]}'')\<close> ?J test_client world0]
      GetNewsletter_single_call[of "''nonexistent''"
        \<open>test_env (fixed_server 200 ''{"newsletters":[]}'')\<close> ?J test_client world0]
    by (simp add: ev)
qed

text \<open>
  The claim as it was stated fails: against a server that answers 404 to the first request
  and would answer the second with a record, \<open>GetNewsletter\<close> returns the 404 error
  after one call, where \<open>GetPost\<close> makes the second call and returns the record.
\<close>

theorem GetNewsletter_no_fallback_counterexample:
  \<open>fst (fst (do_ref (test_env (fallback_server ''{"newsletters":[{"id":"123"}]}''))
          (table_codec newsletter_bodies :: (unit, string NewslettersResponse) codec)
          test_client ''GET'' ''/newsletters/weekly/'' None \<lparr>Newsletters = []\<rparr> world0))
     = Some (ErrAPI 404 ''Not found'')
   \<and> GetNewsletter (test_env (fallback_server ''{"newsletters":[{"id":"123"}]}''))
          (table_codec newsletter_bodies :: (unit, string NewslettersResponse) codec)
          test_client ''weekly'' world0
     = (Inl (ErrAPI 404 ''Not found''),
        snd (do_ref (test_env (fallback_server ''{"newsletters":[{"id":"123"}]}''))
          (table_codec newsletter_bodies :: (unit, string NewslettersResponse) codec)
          test_client ''GET'' ''/newsletters/weekly/'' None \<lparr>Newsletters = []\<rparr> world0))
   \<and> calls (snd (GetNewsletter (test_env (fallback_server ''{"newsletters":[{"id":"123"}]}''))
          (table_codec newsletter_bodies :: (unit, string NewslettersResponse) codec)
          test_client ''weekly'' world0))
     = [(''GET'', ''/newsletters/weekly/'')]
   \<and> fst (GetPost (test_env (fallback_server ''{"posts":[{"id":"123"}]}''))
          (table_codec post_bodies :: (unit, string PostsResponse) codec) test_client ''weekly'' world0)
     = Inr ''123''
   \<and> calls (snd (GetPost (test_env (fallback_server ''{"posts":[{"id":"123"}]}''))
          (table_codec post_bodies :: (unit, string PostsResponse) codec) test_client ''weekly'' world0))
     = [(''GET'', ''/posts/weekly/?formats=html''), (''GET'', ''/posts/slug/weekly/?formats=html'')]\<close>
  by (simp add: GetNewsletter_def GetPost_unfold Let_def do_ref_def do_def request_test_world
      UnmarshalErrorResponse_test sent_world0 calls_world0 fallback_server_def external_def
      Unmarshal_table table_unmarshal_def error_bodies_def newsletter_bodies_def post_bodies_def)

section \<open>Properties of the deletions\<close>

lemma GenerateToken_decoder:
  "GenerateToken (E\<lparr>UnmarshalErrorResponse := f\<rparr>) key w = GenerateToken E key w"
  unfolding GenerateToken_def by (simp split: sum.split prod.split)

lemma request_decoder:
  "request (E\<lparr>UnmarshalErrorResponse := f\<rparr>) m c method path body w =
     request E m c method path body w"
  unfolding request_def GenerateToken_decoder NewRequest_def httpClient_Do_def
  by (auto simp: Let_def split: sum.split prod.split option.split)

lemma request_nil_body:
  "request E m c method path None w = request E m' c method path None w"
  unfolding request_def by (simp split: sum.split prod.split)

lemma do_nil_below_400:
  assumes "fst (request E m c method path None w) = Inr resp"
    and "Body resp = Inr b" and "StatusCode resp < 400"
  shows "do (E\<lparr>UnmarshalErrorResponse := f\<rparr>) J c method path None None w =
     ((None, None),
      (snd (request E m c method path None w))
        \<lparr>calls := calls (snd (request E m c method path None w)) @ [(method, path)]\<rparr>)"
proof -
  obtain w1 where q: "request E m c method path None w = (Inr resp, w1)"
    using assms(1) by (cases "request E m c method path None w") simp
  have q1: "request (E\<lparr>UnmarshalErrorResponse := f\<rparr>) (Marshal J) c method path None w = (Inr resp, w1)"
    unfolding request_decoder using q request_nil_body[of E m c "method" path w "Marshal J"] by simp
  show ?thesis
    unfolding do_def q1 q using assms(2,3) by (simp add: Let_def)
qed

lemma do_nil_below_400_same:
  assumes "fst (request E m c method path None w) = Inr resp"
    and "Body resp = Inr b" and "StatusCode resp < 400"
  shows "do E J c method path None None w =
     ((None, None),
      (snd (request E m c method path None w))
        \<lparr>calls := calls (snd (request E m c method path None w)) @ [(method, path)]\<rparr>)"
  using do_nil_below_400[OF assms, where f = "UnmarshalErrorResponse E" and J = J] by simp

lemma DeletePost_below_400:
  "(\<forall>resp b. fst (request E (Marshal J) c ''DELETE'' (''/posts/'' @ ident @ ''/'') None w) = Inr resp \<and>
        Body resp = Inr b \<and> StatusCode resp < 400 \<longrightarrow>
        fst (DeletePost E J c ident w) = None \<and>
        (\<forall>f J'. DeletePost (E\<lparr>UnmarshalErrorResponse := f\<rparr>) J' c ident w = DeletePost E J c ident w))"
proof (intro allI impI, elim conjE)
  fix resp b
  assume h: "fst (request E (Marshal J) c ''DELETE'' (''/posts/'' @ ident @ ''/'') None w) = Inr resp"
    "Body resp = Inr b" "StatusCode resp < 400"
  show "fst (DeletePost E J c ident w) = None \<and>
        (\<forall>f J'. DeletePost (E\<lparr>UnmarshalErrorResponse := f\<rparr>) J' c ident w = DeletePost E J c ident w)"
    unfolding DeletePost_def do_nil_below_400[OF h] do_nil_below_400_same[OF h] by simp
qed

lemma DeletePage_below_400:
  "(\<forall>resp b. fst (request E (Marshal J) c ''DELETE'' (''/pages/'' @ ident @ ''/'') None w) = Inr resp \<and>
        Body resp = Inr b \<and> StatusCode resp < 400 \<longrightarrow>
        fst (DeletePage E J c ident w) = None \<and>
        (\<forall>f J'. DeletePage (E\<lparr>UnmarshalErrorResponse := f\<rparr>) J' c ident w = DeletePage E J c ident w))"
proof (intro allI impI, elim conjE)
  fix resp b
  assume h: "fst (request E (Marshal J) c ''DELETE'' (''/pages/'' @ ident @ ''/'') None w) = Inr resp"
    "Body resp = Inr b" "StatusCode resp < 400"
  show "fst (DeletePage E J c ident w) = None \<and>
        (\<forall>f J'. DeletePage (E\<lparr>UnmarshalErrorResponse := f\<rparr>) J' c ident w = DeletePage E J c ident w)"
    unfolding DeletePage_def do_nil_below_400[OF h] do_nil_below_400_same[OF h] by simp
qed

lemma DeleteTag_below_400:
  "(\<forall>resp b. fst (request E (Marshal J) c ''DELETE'' (''/tags/'' @ ident @ ''/'') None w) = Inr resp \<and>
        Body resp = Inr b \<and> StatusCode resp < 400 \<longrightarrow>
        fst (DeleteTag E J c ident w) = None \<and>
        (\<forall>f J'. DeleteTag (E\<lparr>UnmarshalErrorResponse := f\<rparr>) J' c ident w = DeleteTag E J c ident w))"
proof (intro allI impI, elim conjE)
  fix resp b
  assume h: "fst (request E (Marshal J) c ''DELETE'' (''/tags/'' @ ident @ ''/'') None w) = Inr resp"
    "Body resp = Inr b" "StatusCode resp < 400"
  show "fst (DeleteTag E J c ident w) = None \<and>
        (\<forall>f J'. DeleteTag (E\<lparr>UnmarshalErrorResponse := f\<rparr>) J' c ident w = DeleteTag E J c ident w)"
    unfolding DeleteTag_def do_nil_below_400[OF h] do_nil_below_400_same[OF h] by simp
qed

lemma DeleteWebhook_below_400:
  "(\<forall>resp b. fst (request E (Marshal J) c ''DELETE'' (''/webhooks/'' @ ident @ ''/'') None w) = Inr resp \<and>
        Body resp = Inr b \<and> StatusCode resp < 400 \<longrightarrow>
        fst (DeleteWebhook E J c ident w) = None \<and>
        (\<forall>f J'. DeleteWebhook (E\<lparr>UnmarshalErrorResponse := f\<rparr>) J' c ident w = DeleteWebhook E J c ident w))"
proof (intro allI impI, elim conjE)
  fix resp b
  assume h: "fst (request E (Marshal J) c ''DELETE'' (''/webhooks/'' @ ident @ ''/'') None w) = Inr resp"
    "Body resp = Inr b" "StatusCode resp < 400"
  show "fst (DeleteWebhook E J c ident w) = None \<and>
        (\<forall>f J'. DeleteWebhook (E\<lparr>UnmarshalErrorResponse := f\<rparr>) J' c ident w = DeleteWebhook E J c ident w)"
    unfolding DeleteWebhook_def do_nil_below_400[OF h] do_nil_below_400_same[OF h] by simp
qed

text \<open>
  C9.  For each of \<open>DeletePost\<close>, \<open>DeletePage\<close>, \<open>DeleteTag\<close> and \<open>DeleteWebhook\<close>:
  when the request is answered with a status below 400 and the body is read, whatever the
  body \<open>b\<close> is, the call returns no error.  The body is not decoded: the outcome, error
  and state, is the same for every JSON decoder put in the place of the environment's and
  of the call's.
\<close>

theorem delete_ignores_body:
  "(\<forall>resp b. fst (request E (Marshal J) c ''DELETE'' (''/posts/'' @ ident @ ''/'') None w) = Inr resp \<and>
        Body resp = Inr b \<and> StatusCode resp < 400 \<longrightarrow>
        fst (DeletePost E J c ident w) = None \<and>
        (\<forall>f J'. DeletePost (E\<lparr>UnmarshalErrorResponse := f\<rparr>) J' c ident w = DeletePost E J c ident w))
   \<and> (\<forall>resp b. fst (request E (Marshal J) c ''DELETE'' (''/pages/'' @ ident @ ''/'') None w) = Inr resp \<and>
        Body resp = Inr b \<and> StatusCode resp < 400 \<longrightarrow>
        fst (DeletePage E J c ident w) = None \<and>
        (\<forall>f J'. DeletePage (E\<lparr>UnmarshalErrorResponse := f\<rparr>) J' c ident w = DeletePage E J c ident w))
   \<and> (\<forall>resp b. fst (request E (Marshal J) c ''DELETE'' (''/tags/'' @ ident @ ''/'') None w) = Inr resp \<and>
        Body resp = Inr b \<and> StatusCode resp < 400 \<longrightarrow>
        fst (DeleteTag E J c ident w) = None \<and>
        (\<forall>f J'. DeleteTag (E\<lparr>UnmarshalErrorResponse := f\<rparr>) J' c ident w = DeleteTag E J c ident w))
   \<and> (\<forall>resp b. fst (request E (Marshal J) c ''DELETE'' (''/webhooks/'' @ ident @ ''/'') None w) = Inr resp \<and>
        Body resp = Inr b \<and> StatusCode resp < 400 \<longrightarrow>
        fst (DeleteWebhook E J c ident w) = None \<and>
        (\<forall>f J'. DeleteWebhook (E\<lparr>UnmarshalErrorResponse := f\<rparr>) J' c ident w = DeleteWebhook E J c ident w))"
proof -
  note posts = DeletePost_below_400[of E J c ident w]
  note pages = DeletePage_below_400[of E J c ident w]
  note tags = DeleteTag_below_400[of E J c ident w]
  note webhooks = DeleteWebhook_below_400[of E J c ident w]
  show ?thesis by (intro conjI posts pages tags webhooks)
qed

theorem delete_ignores_body_witness:
  "fst (DeletePost (test_env (fixed_server 204 [])) (table_codec []) test_client ''123'' world0) = None
   \<and> fst (DeletePage (test_env (fixed_server 204 [])) (table_codec []) test_client ''123'' world0) = None
   \<and> fst (DeleteTag (test_env (fixed_server 200 ''<html>gateway</html>'')) (table_codec [])
          test_client ''123'' world0) = None
   \<and> fst (DeleteWebhook (test_env (fixed_server 200 ''<html>gateway</html>'')) (table_codec [])
          test_client ''123'' world0) = None"
  using
    delete_ignores_body[of "test_env (fixed_server 204 [])" "table_codec []" test_client "''123''" world0]
    delete_ignores_body[of "test_env (fixed_server 200 ''<html>gateway</html>'')" "table_codec []"
      test_client "''123''" world0]
  by (simp add: request_fixed_server)

section \<open>The paths of the page writes\<close>

lemma page_write_paths:
  "calls (snd (CreatePage E J c page w)) = calls w @ [(''POST'', ''/pages/?formats=html'')]
   \<and> calls (snd (UpdatePage E J c ident page w)) = calls w @ [(''PUT'', ''/pages/'' @ ident @ ''/?formats=html'')]"
proof -
  define p where "p = ''/pages/'' @ ident @ ''/?formats=html''"
  obtain e r w1 where a: "do_ref E J c ''POST'' ''/pages/?formats=html'' (Some [(''pages'', [page])])
      \<lparr>Pages_of = [], pages_Meta = None\<rparr> w = ((e, r), w1)"
    by (metis surj_pair)
  obtain e' r' w1' where b: "do_ref E J c ''PUT'' p (Some [(''pages'', [page])])
      \<lparr>Pages_of = [], pages_Meta = None\<rparr> w = ((e', r'), w1')"
    by (metis surj_pair)
  have "calls w1 = calls w @ [(''POST'', ''/pages/?formats=html'')]"
    using do_ref_calls[of E J c "''POST''" "''/pages/?formats=html''" "Some [(''pages'', [page])]"
        "\<lparr>Pages_of = [], pages_Meta = None\<rparr>" w] unfolding a by simp
  moreover have "calls w1' = calls w @ [(''PUT'', p)]"
    using do_ref_calls[of E J c "''PUT''" p "Some [(''pages'', [page])]"
        "\<lparr>Pages_of = [], pages_Meta = None\<rparr>" w] unfolding b by simp
  ultimately show ?thesis
    unfolding CreatePage_def UpdatePage_def Let_def p_def[symmetric] a b
    by (cases e; cases e') simp_all
qed

text \<open>
  C6.  The page writes at a concrete input, beside the post writes: \<open>CreatePage\<close> and
  \<open>UpdatePage\<close> send their request to a URL whose query is \<^verbatim>\<open>formats=html\<close> alone,
  where \<open>CreatePost\<close> and \<open>UpdatePost\<close> send \<^verbatim>\<open>source=html&formats=html\<close>.
\<close>

theorem page_writes_omit_source_html:
  \<open>map req_URL (sent (snd (CreatePage (test_env (fixed_server 201 ''{"pages":[{"id":"123"}]}''))
          (table_codec page_bodies) test_client ''About'' world0)))
     = [''http://localhost/ghost/api/admin/pages/?formats=html'']
   \<and> map req_URL (sent (snd (UpdatePage (test_env (fixed_server 200 ''{"pages":[{"id":"123"}]}''))
          (table_codec page_bodies) test_client ''123'' ''About'' world0)))
     = [''http://localhost/ghost/api/admin/pages/123/?formats=html'']
   \<and> map req_URL (sent (snd (CreatePost (test_env (fixed_server 201 ''{"posts":[{"id":"123"}]}''))
          (table_codec post_bodies) test_client ''Hello'' world0)))
     = [''http://localhost/ghost/api/admin/posts/?source=html&formats=html'']
   \<and> map req_URL (sent (snd (UpdatePost (test_env (fixed_server 200 ''{"posts":[{"id":"123"}]}''))
          (table_codec post_bodies) test_client ''123'' ''Hello'' world0)))
     = [''http://localhost/ghost/api/admin/posts/123/?source=html&formats=html'']\<close>
  by (simp add: CreatePage_def UpdatePage_def CreatePost_def UpdatePost_def Let_def do_ref_def do_def
      request_test_body sent_world0 fixed_server_def external_def Unmarshal_table table_unmarshal_def
      page_bodies_def post_bodies_def baseURL_test_client)

section \<open>Properties of the image upload\<close>

lemma ParseAPIKey_invalid_key: "ParseAPIKey ''invalid-key'' = Inl KeyFormatExpected"
  by code_simp

lemma GenerateToken_parse_error:
  "ParseAPIKey key = Inl err \<Longrightarrow> GenerateToken E key w = (Inl err, w)"
  unfolding GenerateToken_def by simp

lemma GenerateToken_opened: "opened (snd (GenerateToken E key w)) = opened w"
  unfolding GenerateToken_def time_Now_def
  by (simp add: Let_def split: sum.split prod.split)

text \<open>
  C10.  \<open>UploadImage\<close> mints the token before it opens the file.  With a credential that
  does not parse, it fails with the token-generation error and leaves the state as it was:
  no file is opened, whether or not the path exists.  If the call opened a file, the
  credential parses.  With a token minted and a path that cannot be opened, the result is the
  error of opening it, and the path has been opened once.
\<close>

theorem UploadImage_token_first:
  "(\<forall>err. ParseAPIKey (apiKey c) = Inl err \<longrightarrow>
        UploadImage E J c filePath w = (Inl (GeneratingToken err), w) \<and>
        opened (snd (UploadImage E J c filePath w)) = opened w)
   \<and> (opened (snd (UploadImage E J c filePath w)) \<noteq> opened w \<longrightarrow>
        (\<exists>kid secret. ParseAPIKey (apiKey c) = Inr (kid, secret)))
   \<and> (\<forall>token e. fst (GenerateToken E (apiKey c) w) = Inr token \<and> Open E filePath = Inl e \<longrightarrow>
        fst (UploadImage E J c filePath w) = Inl (External e) \<and>
        opened (snd (UploadImage E J c filePath w)) = opened w @ [filePath])"
proof -
  have invalid: "UploadImage E J c filePath w = (Inl (GeneratingToken err), w)"
    if "ParseAPIKey (apiKey c) = Inl err" for err
  proof -
    from that have g: "GenerateToken E (apiKey c) w = (Inl err, w)"
      by (rule GenerateToken_parse_error)
    show ?thesis unfolding UploadImage_def g by simp
  qed
  have opened_valid: "\<exists>kid secret. ParseAPIKey (apiKey c) = Inr (kid, secret)"
    if o: "opened (snd (UploadImage E J c filePath w)) \<noteq> opened w"
  proof (cases "ParseAPIKey (apiKey c)")
    case (Inl err)
    with o invalid[of err] show ?thesis by simp
  next
    case (Inr p)
    then show ?thesis by (cases p) simp
  qed
  have open_error: "fst (UploadImage E J c filePath w) = Inl (External e) \<and>
        opened (snd (UploadImage E J c filePath w)) = opened w @ [filePath]"
    if h: "fst (GenerateToken E (apiKey c) w) = Inr token \<and> Open E filePath = Inl e" for token e
  proof -
    from h obtain w1 where g: "GenerateToken E (apiKey c) w = (Inr token, w1)"
      by (cases "GenerateToken E (apiKey c) w") simp
    have "opened w1 = opened w" using GenerateToken_opened[of E "apiKey c" w] g by simp
    with h show ?thesis unfolding UploadImage_def g os_Open_def by simp
  qed
  show ?thesis
    using invalid opened_valid open_error by simp
qed

theorem UploadImage_token_first_witness:
  "UploadImage (test_env unreachable_server) (table_codec image_bodies :: (unit, string ImagesResponse) codec) bad_client
       ''/nonexistent/file.jpg'' world0
     = (Inl (GeneratingToken KeyFormatExpected), world0)
   \<and> UploadImage (test_env unreachable_server) (table_codec image_bodies :: (unit, string ImagesResponse) codec) bad_client
       ''/tmp/test.jpg'' world0
     = (Inl (GeneratingToken KeyFormatExpected), world0)
   \<and> fst (UploadImage (test_env unreachable_server) (table_codec image_bodies :: (unit, string ImagesResponse) codec) test_client
       ''/nonexistent/file.jpg'' world0)
     = Inl (External (Foreign ''open: no such file or directory''))
   \<and> opened (snd (UploadImage (test_env unreachable_server) (table_codec image_bodies :: (unit, string ImagesResponse) codec) test_client
       ''/nonexistent/file.jpg'' world0))
     = [''/nonexistent/file.jpg'']"
proof -
  have k: "apiKey bad_client = ''invalid-key''" by (simp add: bad_client_def NewClient_def)
  have o: "Open (test_env unreachable_server) ''/nonexistent/file.jpg''
      = Inl (Foreign ''open: no such file or directory'')"
    by (simp add: test_env_def test_open_def)
  have w: "opened world0 = []" by (simp add: world0_def)
  show ?thesis
    using
      UploadImage_token_first[of bad_client "test_env unreachable_server" "table_codec image_bodies :: (unit, string ImagesResponse) codec"
        "''/nonexistent/file.jpg''" world0]
      UploadImage_token_first[of bad_client "test_env unreachable_server" "table_codec image_bodies :: (unit, string ImagesResponse) codec"
        "''/tmp/test.jpg''" world0]
      UploadImage_token_first[of test_client "test_env unreachable_server" "table_codec image_bodies :: (unit, string ImagesResponse) codec"
        "''/nonexistent/file.jpg''" world0]
    by (simp add: k ParseAPIKey_invalid_key apiKey_test_client GenerateToken_test o w)
qed

section \<open>The pagination record on the wire\<close>

lemma in_int_range_sint: "in_int_range (sint (n :: go_int))"
  unfolding in_int_range_def
  using sint_ge[of n] sint_lt[of n] by simp

lemma unmarshal_marshal_int: "unmarshal_int (marshal_int n) old = Inr n"
  by (simp add: marshal_int_def in_int_range_sint)

lemma unmarshal_marshal_int_ptr: "unmarshal_int_ptr (marshal_int_ptr p) old = Inr p"
  by (cases p) (simp_all add: marshal_int_ptr_def marshal_int_def in_int_range_sint)

lemma field_of_own_tag:
  "field_of_key pagination_tags ''page'' = Some ''page''"
  "field_of_key pagination_tags ''limit'' = Some ''limit''"
  "field_of_key pagination_tags ''pages'' = Some ''pages''"
  "field_of_key pagination_tags ''total'' = Some ''total''"
  "field_of_key pagination_tags ''next'' = Some ''next''"
  "field_of_key pagination_tags ''prev'' = Some ''prev''"
  by (simp_all add: field_of_key_def pagination_tags_def)

text \<open>
  Keys are matched without regard to case when no tag is equal to them, as
  \<^verbatim>\<open>encoding/json\<close> does; a key that is no tag under folding either is skipped.
\<close>

lemma Unmarshal_Pagination_folds_keys:
  "Unmarshal_Pagination (JObject [(''Page'', JNumber 3), (''PREV'', JNumber 2), (''nexts'', JNumber 9)])
      zero_Pagination
     = Inr \<lparr>Page = 3, Limit = 0, Pages = 0, Total = 0, Next = None, Prev = Some 2\<rparr>"
  by code_simp

text \<open>
  C8.  Unmarshaling what \<open>Marshal_Pagination\<close> produced for \<open>p\<close>, into any
  \<open>Pagination\<close> value (the zero value of a fresh variable among them), gives \<open>p\<close> back,
  every field as it was.  The object that is produced has the six keys in the order of the
  declaration; \<^verbatim>\<open>next\<close> and \<^verbatim>\<open>prev\<close> are always among them, with the value
  \<^verbatim>\<open>null\<close> for a nil pointer and the page number otherwise.
\<close>

theorem Pagination_roundtrip:
  "Unmarshal_Pagination (Marshal_Pagination p) q = Inr p
   \<and> (\<exists>members. Marshal_Pagination p = JObject members \<and>
         map fst members = [''page'', ''limit'', ''pages'', ''total'', ''next'', ''prev''] \<and>
         map_of members ''next'' = Some (case Next p of None \<Rightarrow> JNull | Some n \<Rightarrow> JNumber (sint n)) \<and>
         map_of members ''prev'' = Some (case Prev p of None \<Rightarrow> JNull | Some n \<Rightarrow> JNumber (sint n)))"
proof
  show "Unmarshal_Pagination (Marshal_Pagination p) q = Inr p"
    unfolding Marshal_Pagination_def
    by (cases p)
      (simp add: unmarshal_member_def field_of_own_tag unmarshal_marshal_int unmarshal_marshal_int_ptr)
next
  show "\<exists>members. Marshal_Pagination p = JObject members \<and>
         map fst members = [''page'', ''limit'', ''pages'', ''total'', ''next'', ''prev''] \<and>
         map_of members ''next'' = Some (case Next p of None \<Rightarrow> JNull | Some n \<Rightarrow> JNumber (sint n)) \<and>
         map_of members ''prev'' = Some (case Prev p of None \<Rightarrow> JNull | Some n \<Rightarrow> JNumber (sint n))"
    unfolding Marshal_Pagination_def
    by (simp add: marshal_int_ptr_def marshal_int_def split: option.split)
qed

theorem Pagination_roundtrip_witness:
  "Marshal_Pagination \<lparr>Page = 5, Limit = 15, Pages = 5, Total = 75, Next = None, Prev = Some 4\<rparr>
     = JObject [(''page'', JNumber 5), (''limit'', JNumber 15), (''pages'', JNumber 5),
                (''total'', JNumber 75), (''next'', JNull), (''prev'', JNumber 4)]
   \<and> Unmarshal_Pagination
        (JObject [(''page'', JNumber 5), (''limit'', JNumber 15), (''pages'', JNumber 5),
                  (''total'', JNumber 75), (''next'', JNull), (''prev'', JNumber 4)])
        zero_Pagination
     = Inr \<lparr>Page = 5, Limit = 15, Pages = 5, Total = 75, Next = None, Prev = Some 4\<rparr>"
proof -
  have m: "Marshal_Pagination \<lparr>Page = 5, Limit = 15, Pages = 5, Total = 75, Next = None, Prev = Some 4\<rparr>
     = JObject [(''page'', JNumber 5), (''limit'', JNumber 15), (''pages'', JNumber 5),
                (''total'', JNumber 75), (''next'', JNull), (''prev'', JNumber 4)]"
    by (simp add: Marshal_Pagination_def marshal_int_def marshal_int_ptr_def)
  show ?thesis
    using Pagination_roundtrip[of "\<lparr>Page = 5, Limit = 15, Pages = 5, Total = 75, Next = None, Prev = Some 4\<rparr>"
        zero_Pagination]
    unfolding m by simp
qed

end
